theory Spec2Isabelle
  imports Main "HOL-Library.Word"
begin

section \<open>Values, errors and the outside world\<close>

text \<open>
  A Go \<^verbatim>\<open>error\<close> is either a message or \<^verbatim>\<open>fmt.Errorf("<prefix>: %w", err)\<close>,
  which keeps the wrapped error.
\<close>

datatype error = Error string | Wrapped string error

fun message :: "error \<Rightarrow> string" where
  "message (Error m) = m"
| "message (Wrapped p e) = p @ '': '' @ message e"

text \<open>The values of type \<^verbatim>\<open>interface{}\<close> that the engine stores in its maps.\<close>

datatype ivalue = VString string | VInt int | VStrings "string list" | VBool bool | VNil

text \<open>The type assertion \<^verbatim>\<open>v.(string)\<close>; \<open>None\<close> is the failed assertion.\<close>

fun as_string :: "ivalue option \<Rightarrow> string option" where
  "as_string (Some (VString s)) = Some s"
| "as_string _ = None"

fun as_int :: "ivalue option \<Rightarrow> int option" where
  "as_int (Some (VInt i)) = Some i"
| "as_int _ = None"

fun as_strings :: "ivalue option \<Rightarrow> string list option" where
  "as_strings (Some (VStrings ss)) = Some ss"
| "as_strings _ = None"

text \<open>The verb \<^verbatim>\<open>%d\<close> of \<^verbatim>\<open>fmt.Sprintf\<close>: decimal digits, with a sign when negative.\<close>

definition digit :: "nat \<Rightarrow> char" where
  "digit d = ''0123456789'' ! d"

fun show_nat :: "nat \<Rightarrow> string" where
  "show_nat n = (if n < 10 then [digit n] else show_nat (n div 10) @ [digit (n mod 10)])"

declare show_nat.simps [simp del]

definition show_int :: "int \<Rightarrow> string" where
  "show_int i = (if i < 0 then CHR ''-'' # show_nat (nat (- i)) else show_nat (nat i))"

definition quoted :: "string \<Rightarrow> string" where
  "quoted s = [CHR 0x27] @ s @ [CHR 0x27]"

subsection \<open>client.go: the data of the HTTP client\<close>

record datadogClient =
  apiKey :: string
  appKey :: string
  baseURL :: string
  timeout_seconds :: nat

record http_request =
  req_method :: string
  req_url :: string
  req_headers :: "(string \<times> string) list"
  req_body :: string

record http_response =
  StatusCode :: int
  Body :: string

subsection \<open>config.go and the role definition\<close>

record datadogConfig =
  APIKey :: string
  AppKey :: string

record datadogRole =
  KeyType :: string
  Scopes :: "string list"
  TTL :: int
  MaxTTL :: int

subsection \<open>The observable world\<close>

text \<open>
  The four methods of \<^verbatim>\<open>clientInterface\<close>, as events: every call the engine makes
  on its client is appended to \<open>calls\<close>. Storage operations are logged in \<open>sops\<close>.
  The requests the client passes to \<^verbatim>\<open>http.Client.Do\<close> are logged in \<open>do_log\<close>, one
  for each call of \<^verbatim>\<open>Do\<close>; the requests that go over the wire are logged in
  \<open>wire_log\<close>: \<^verbatim>\<open>Do\<close> follows redirects (the client sets no
  \<^verbatim>\<open>CheckRedirect\<close>), so one call of \<^verbatim>\<open>Do\<close> may put several requests on the wire.
\<close>

datatype call =
    CreateAPIKey string
  | CreateAppKey string "string list"
  | DeleteAPIKey string
  | DeleteAppKey string

datatype sop = SGet string | SPut string string

record world =
  store :: "string \<rightharpoonup> string"
  sops :: "sop list"
  calls :: "call list"
  do_log :: "http_request list"
  wire_log :: "http_request list"

text \<open>
  What the libraries and the network do is a parameter of the model: JSON encoding and
  decoding, the validation of \<^verbatim>\<open>http.NewRequest\<close>, the failures of
  \<^verbatim>\<open>logical.Storage\<close>, the parsers the framework applies to request fields, and
  \<^verbatim>\<open>http.Client.Do\<close>: given what has gone over the wire before and the request, \<open>client_Do\<close>
  is the result of the call (the last response, or the error) together with the requests
  the call put on the wire (the request and every redirect it followed; none when it fails
  before sending).
\<close>

record env =
  json_encode :: "(string \<times> ivalue) list \<Rightarrow> error + string"
  new_request :: "string \<Rightarrow> string \<Rightarrow> error option"
  client_Do :: "http_request list \<Rightarrow> http_request \<Rightarrow> (error + http_response) \<times> http_request list"
  json_decode_field :: "string \<Rightarrow> string \<Rightarrow> error + string"
  storage_fault :: "sop list \<Rightarrow> sop \<Rightarrow> error option"
  role_to_json :: "datadogRole \<Rightarrow> error + string"
  role_of_json :: "string \<Rightarrow> error + datadogRole"
  config_of_json :: "string \<Rightarrow> error + datadogConfig"
  weak_decode_string :: "ivalue \<Rightarrow> error + string"
  parse_comma_string_slice :: "ivalue \<Rightarrow> error + string list"
  parse_duration_second :: "ivalue \<Rightarrow> error + int"

section \<open>client.go\<close>

definition newDatadogClient :: "string \<Rightarrow> string \<Rightarrow> datadogClient" where
  "newDatadogClient k a =
     \<lparr>apiKey = k, appKey = a, baseURL = ''https://api.datadoghq.com/api/v1'',
      timeout_seconds = 10\<rparr>"

text \<open>The request \<^verbatim>\<open>doRequest\<close> builds: the URL and the three headers it sets.\<close>

definition build_request :: "datadogClient \<Rightarrow> string \<Rightarrow> string \<Rightarrow> string \<Rightarrow> http_request" where
  "build_request c meth path bdy =
     \<lparr>req_method = meth, req_url = baseURL c @ path,
      req_headers = [(''Content-Type'', ''application/json''),
                     (''DD-API-KEY'', apiKey c),
                     (''DD-APPLICATION-KEY'', appKey c)],
      req_body = bdy\<rparr>"

text \<open>
  \<^verbatim>\<open>doRequest\<close>, after the request exists: one call of \<^verbatim>\<open>c.client.Do\<close>, then the
  status check \<^verbatim>\<open>resp.StatusCode >= 400\<close>.
\<close>

definition send :: "env \<Rightarrow> http_request \<Rightarrow> world \<Rightarrow> (error + http_response) \<times> world" where
  "send E rq w =
     (case client_Do E (wire_log w) rq of
        (res, sent) \<Rightarrow>
          (let w' = w\<lparr>do_log := do_log w @ [rq], wire_log := wire_log w @ sent\<rparr> in
           case res of
             Inl e \<Rightarrow> (Inl e, w')
           | Inr resp \<Rightarrow>
               if StatusCode resp \<ge> 400
               then (Inl (Error (''datadog API request failed with status ''
                                  @ show_int (StatusCode resp))), w')
               else (Inr resp, w')))"

definition doRequest ::
  "env \<Rightarrow> datadogClient \<Rightarrow> string \<Rightarrow> string \<Rightarrow> (string \<times> ivalue) list option \<Rightarrow> world
     \<Rightarrow> (error + http_response) \<times> world" where
  "doRequest E c meth path payload w =
     (case (case payload of None \<Rightarrow> Inr [] | Some p \<Rightarrow> json_encode E p) of
        Inl e \<Rightarrow> (Inl e, w)
      | Inr bdy \<Rightarrow>
          (case new_request E meth (baseURL c @ path) of
             Some e \<Rightarrow> (Inl e, w)
           | None \<Rightarrow> send E (build_request c meth path bdy) w))"

definition createAPIKey :: "env \<Rightarrow> datadogClient \<Rightarrow> string \<Rightarrow> world \<Rightarrow> (error + string) \<times> world" where
  "createAPIKey E c name w =
     (case doRequest E c ''POST'' ''/api_key'' (Some [(''name'', VString name)]) w of
        (Inl e, w') \<Rightarrow> (Inl e, w')
      | (Inr resp, w') \<Rightarrow>
          (case json_decode_field E ''api_key'' (Body resp) of
             Inl e \<Rightarrow> (Inl e, w')
           | Inr k \<Rightarrow> (Inr k, w')))"

definition createAppKey ::
  "env \<Rightarrow> datadogClient \<Rightarrow> string \<Rightarrow> string list \<Rightarrow> world \<Rightarrow> (error + string) \<times> world" where
  "createAppKey E c name scopes w =
     (case doRequest E c ''POST'' ''/application_key''
             (Some [(''name'', VString name), (''scopes'', VStrings scopes)]) w of
        (Inl e, w') \<Rightarrow> (Inl e, w')
      | (Inr resp, w') \<Rightarrow>
          (case json_decode_field E ''application_key'' (Body resp) of
             Inl e \<Rightarrow> (Inl e, w')
           | Inr k \<Rightarrow> (Inr k, w')))"

definition deleteAPIKey :: "env \<Rightarrow> datadogClient \<Rightarrow> string \<Rightarrow> world \<Rightarrow> error option \<times> world" where
  "deleteAPIKey E c key w =
     (case doRequest E c ''DELETE'' (''/api_key/'' @ key) None w of
        (Inl e, w') \<Rightarrow> (Some e, w')
      | (Inr resp, w') \<Rightarrow> (None, w'))"

definition deleteAppKey :: "env \<Rightarrow> datadogClient \<Rightarrow> string \<Rightarrow> world \<Rightarrow> error option \<times> world" where
  "deleteAppKey E c key w =
     (case doRequest E c ''DELETE'' (''/application_key/'' @ key) None w of
        (Inl e, w') \<Rightarrow> (Some e, w')
      | (Inr resp, w') \<Rightarrow> (None, w'))"

section \<open>The framework types the handlers use\<close>

text \<open>
  \<^verbatim>\<open>framework.FieldData\<close>: \<open>raw\<close> holds the fields the request supplied, as they
  arrived; the schema is that of the path.

  \<^verbatim>\<open>getPrimitive\<close> parses a supplied value for the type of its field: \<open>Inr None\<close> is
  \<^verbatim>\<open>(nil, false, nil)\<close>, \<open>Inl\<close> a parse error. A string field takes a string as it
  is and \<^verbatim>\<open>nil\<close> as the empty string, anything else goes through
  \<^verbatim>\<open>mapstructure.WeakDecode\<close>; a comma-string-slice field goes through
  \<^verbatim>\<open>parseutil.ParseCommaStringSlice\<close>; a duration field treats \<^verbatim>\<open>nil\<close> as not
  supplied, takes a number of seconds that a \<^verbatim>\<open>time.Duration\<close> can hold as it is, sends
  anything else through \<^verbatim>\<open>parseutil.ParseDurationSecond\<close>, and refuses a negative result.

  \<^verbatim>\<open>Get\<close> gives the parsed value of a supplied field, else the schema's default, else
  the zero value of the type; \<open>None\<close> is its panic, on a field that is not in the schema
  and on a parse error.
\<close>

datatype fieldType = TypeString | TypeCommaStringSlice | TypeDurationSecond

record fieldSchema =
  ftype :: fieldType
  fdefault :: "ivalue option"

fun zero_of :: "fieldType \<Rightarrow> ivalue" where
  "zero_of TypeString = VString []"
| "zero_of TypeCommaStringSlice = VStrings []"
| "zero_of TypeDurationSecond = VInt 0"

definition DefaultOrZero :: "fieldSchema \<Rightarrow> ivalue" where
  "DefaultOrZero s = (case fdefault s of Some d \<Rightarrow> d | None \<Rightarrow> zero_of (ftype s))"

definition negative_duration :: "int \<Rightarrow> error" where
  "negative_duration n = Error (''cannot provide negative value '' @ quoted (show_int n))"

fun getPrimitive :: "env \<Rightarrow> fieldType \<Rightarrow> ivalue \<Rightarrow> error + ivalue option" where
  "getPrimitive E TypeString (VString x) = Inr (Some (VString x))"
| "getPrimitive E TypeString VNil = Inr (Some (VString []))"
| "getPrimitive E TypeString v =
     (case weak_decode_string E v of Inl e \<Rightarrow> Inl e | Inr x \<Rightarrow> Inr (Some (VString x)))"
| "getPrimitive E TypeCommaStringSlice v =
     (case parse_comma_string_slice E v of Inl e \<Rightarrow> Inl e | Inr xs \<Rightarrow> Inr (Some (VStrings xs)))"
| "getPrimitive E TypeDurationSecond VNil = Inr None"
| "getPrimitive E TypeDurationSecond v =
     (case (case v of
              VInt n \<Rightarrow> if - 9223372036 \<le> n \<and> n \<le> 9223372036 then Inr n
                        else parse_duration_second E v
            | _ \<Rightarrow> parse_duration_second E v) of
        Inl e \<Rightarrow> Inl e
      | Inr n \<Rightarrow> if n < 0 then Inl (negative_duration n) else Inr (Some (VInt n)))"

definition Get ::
  "env \<Rightarrow> (string \<rightharpoonup> fieldSchema) \<Rightarrow> (string \<rightharpoonup> ivalue) \<Rightarrow> string \<Rightarrow> ivalue option" where
  "Get E sch raw k =
     (case sch k of
        None \<Rightarrow> None
      | Some s \<Rightarrow>
          (case raw k of
             None \<Rightarrow> Some (DefaultOrZero s)
           | Some v \<Rightarrow>
               (case getPrimitive E (ftype s) v of
                  Inl e \<Rightarrow> None
                | Inr None \<Rightarrow> Some (DefaultOrZero s)
                | Inr (Some VNil) \<Rightarrow> Some (DefaultOrZero s)
                | Inr (Some x) \<Rightarrow> Some x)))"

text \<open>\<^verbatim>\<open>logical.Response\<close>, \<^verbatim>\<open>logical.Secret\<close> and \<^verbatim>\<open>logical.LeaseOptions\<close>.
  A \<^verbatim>\<open>time.Duration\<close> is a signed 64-bit count of nanoseconds.\<close>

record leaseOptions =
  lease_TTL :: "64 word"
  lease_MaxTTL :: "64 word"
  Renewable :: bool

record secret =
  InternalData :: "string \<rightharpoonup> ivalue"
  LeaseOptions :: leaseOptions

record response =
  Data :: "string \<rightharpoonup> ivalue"
  Secret :: "secret option"

definition ErrorResponse :: "string \<Rightarrow> response" where
  "ErrorResponse text = \<lparr>Data = [''error'' \<mapsto> VString text], Secret = None\<rparr>"

text \<open>\<^verbatim>\<open>time.Duration(n) * time.Second\<close>, in 64-bit arithmetic.\<close>

definition seconds :: "int \<Rightarrow> 64 word" where
  "seconds n = word_of_int n * 1000000000"

text \<open>
  What a handler does: it returns \<^verbatim>\<open>(resp, nil)\<close> (\<open>resp\<close> may be \<^verbatim>\<open>nil\<close>), it
  returns \<^verbatim>\<open>(nil, err)\<close>, or it panics.
\<close>

datatype result = Return "response option" | Fail error | Panic

section \<open>main.go: the backend and its client\<close>

text \<open>
  The field \<^verbatim>\<open>client\<close> of the backend has the interface type \<^verbatim>\<open>clientInterface\<close>.
  Its two implementations are \<^verbatim>\<open>datadogClient\<close> (client.go) and the
  \<^verbatim>\<open>mockDatadogClient\<close> of backend\_test.go, whose answers are fixed in advance:
  here they may depend on the method's arguments and on the calls made before.
\<close>

record mockDatadogClient =
  on_createAPIKey :: "call list \<Rightarrow> string \<Rightarrow> error + string"
  on_createAppKey :: "call list \<Rightarrow> string \<Rightarrow> string list \<Rightarrow> error + string"
  on_deleteAPIKey :: "call list \<Rightarrow> string \<Rightarrow> error option"
  on_deleteAppKey :: "call list \<Rightarrow> string \<Rightarrow> error option"

datatype client = Datadog datadogClient | Mock mockDatadogClient

record backend =
  client :: "client option"

text \<open>A method call on the interface value: the call is recorded, then dispatched.\<close>

definition client_createAPIKey :: "env \<Rightarrow> client \<Rightarrow> string \<Rightarrow> world \<Rightarrow> (error + string) \<times> world" where
  "client_createAPIKey E cl name w =
     (let w1 = w\<lparr>calls := calls w @ [CreateAPIKey name]\<rparr> in
      case cl of
        Datadog c \<Rightarrow> createAPIKey E c name w1
      | Mock m \<Rightarrow> (on_createAPIKey m (calls w) name, w1))"

definition client_createAppKey ::
  "env \<Rightarrow> client \<Rightarrow> string \<Rightarrow> string list \<Rightarrow> world \<Rightarrow> (error + string) \<times> world" where
  "client_createAppKey E cl name scopes w =
     (let w1 = w\<lparr>calls := calls w @ [CreateAppKey name scopes]\<rparr> in
      case cl of
        Datadog c \<Rightarrow> createAppKey E c name scopes w1
      | Mock m \<Rightarrow> (on_createAppKey m (calls w) name scopes, w1))"

definition client_deleteAPIKey :: "env \<Rightarrow> client \<Rightarrow> string \<Rightarrow> world \<Rightarrow> error option \<times> world" where
  "client_deleteAPIKey E cl key w =
     (let w1 = w\<lparr>calls := calls w @ [DeleteAPIKey key]\<rparr> in
      case cl of
        Datadog c \<Rightarrow> deleteAPIKey E c key w1
      | Mock m \<Rightarrow> (on_deleteAPIKey m (calls w) key, w1))"

definition client_deleteAppKey :: "env \<Rightarrow> client \<Rightarrow> string \<Rightarrow> world \<Rightarrow> error option \<times> world" where
  "client_deleteAppKey E cl key w =
     (let w1 = w\<lparr>calls := calls w @ [DeleteAppKey key]\<rparr> in
      case cl of
        Datadog c \<Rightarrow> deleteAppKey E c key w1
      | Mock m \<Rightarrow> (on_deleteAppKey m (calls w) key, w1))"

section \<open>logical.Storage\<close>

definition storage_Get :: "env \<Rightarrow> string \<Rightarrow> world \<Rightarrow> (error + string option) \<times> world" where
  "storage_Get E key w =
     (let w1 = w\<lparr>sops := sops w @ [SGet key]\<rparr> in
      case storage_fault E (sops w) (SGet key) of
        Some e \<Rightarrow> (Inl e, w1)
      | None \<Rightarrow> (Inr (store w key), w1))"

definition storage_Put :: "env \<Rightarrow> string \<Rightarrow> string \<Rightarrow> world \<Rightarrow> error option \<times> world" where
  "storage_Put E key val w =
     (let w1 = w\<lparr>sops := sops w @ [SPut key val]\<rparr> in
      case storage_fault E (sops w) (SPut key val) of
        Some e \<Rightarrow> (Some e, w1)
      | None \<Rightarrow> (None, w1\<lparr>store := (store w)(key \<mapsto> val)\<rparr>))"

section \<open>config.go\<close>

definition getConfig :: "env \<Rightarrow> world \<Rightarrow> (error + datadogConfig option) \<times> world" where
  "getConfig E w =
     (case storage_Get E ''config'' w of
        (Inl e, w1) \<Rightarrow> (Inl e, w1)
      | (Inr None, w1) \<Rightarrow> (Inr None, w1)
      | (Inr (Some entry), w1) \<Rightarrow>
          (case config_of_json E entry of
             Inl e \<Rightarrow> (Inl e, w1)
           | Inr config \<Rightarrow> (Inr (Some config), w1)))"

section \<open>The role and key paths\<close>

text \<open>
  The field schemas of \<^verbatim>\<open>pathRoles\<close> and \<^verbatim>\<open>pathKeys\<close>, with their defaults.
  \<^verbatim>\<open>Required\<close> and \<^verbatim>\<open>AllowedValues\<close> of \<open>key_type\<close> describe the field and are
  not enforced when a request is handled: \<^verbatim>\<open>pathRoleWrite\<close> checks the key type itself.
\<close>

definition pathRoles_Fields :: "string \<rightharpoonup> fieldSchema" where
  "pathRoles_Fields =
     [''name'' \<mapsto> \<lparr>ftype = TypeString, fdefault = None\<rparr>,
      ''key_type'' \<mapsto> \<lparr>ftype = TypeString, fdefault = None\<rparr>,
      ''scopes'' \<mapsto> \<lparr>ftype = TypeCommaStringSlice, fdefault = None\<rparr>,
      ''ttl'' \<mapsto> \<lparr>ftype = TypeDurationSecond, fdefault = Some (VInt 3600)\<rparr>,
      ''max_ttl'' \<mapsto> \<lparr>ftype = TypeDurationSecond, fdefault = Some (VInt 86400)\<rparr>]"

definition pathKeys_Fields :: "string \<rightharpoonup> fieldSchema" where
  "pathKeys_Fields =
     [''role'' \<mapsto> \<lparr>ftype = TypeString, fdefault = None\<rparr>,
      ''name'' \<mapsto> \<lparr>ftype = TypeString, fdefault = Some (VString ''vault-generated'')\<rparr>]"

definition valid_key_type :: "string \<Rightarrow> bool" where
  "valid_key_type k \<longleftrightarrow> k = ''api_key'' \<or> k = ''app_key'' \<or> k = ''both''"

definition invalid_key_type_msg :: string where
  "invalid_key_type_msg =
     ''invalid key_type; must be '' @ quoted ''api_key'' @ '', '' @ quoted ''app_key''
       @ '', or '' @ quoted ''both''"

definition pathRoleWrite :: "env \<Rightarrow> (string \<rightharpoonup> ivalue) \<Rightarrow> world \<Rightarrow> result \<times> world" where
  "pathRoleWrite E d w =
     (case as_string (Get E pathRoles_Fields d ''name'') of
        None \<Rightarrow> (Panic, w)
      | Some name \<Rightarrow>
          if name = [] then (Return (Some (ErrorResponse ''missing role name'')), w)
          else
            (case (as_string (Get E pathRoles_Fields d ''key_type''),
                   as_strings (Get E pathRoles_Fields d ''scopes''),
                   as_int (Get E pathRoles_Fields d ''ttl''),
                   as_int (Get E pathRoles_Fields d ''max_ttl'')) of
               (Some kt, Some sc, Some t, Some mt) \<Rightarrow>
                 (let role = \<lparr>KeyType = kt, Scopes = sc, TTL = t, MaxTTL = mt\<rparr> in
                  if \<not> valid_key_type (KeyType role)
                  then (Return (Some (ErrorResponse invalid_key_type_msg)), w)
                  else if TTL role > MaxTTL role
                  then (Return (Some (ErrorResponse ''ttl cannot be greater than max_ttl'')), w)
                  else
                    (case role_to_json E role of
                       Inl e \<Rightarrow> (Fail e, w)
                     | Inr entry \<Rightarrow>
                         (case storage_Put E (''role/'' @ name) entry w of
                            (Some e, w1) \<Rightarrow> (Fail e, w1)
                          | (None, w1) \<Rightarrow> (Return None, w1))))
             | _ \<Rightarrow> (Panic, w)))"

definition getRole :: "env \<Rightarrow> string \<Rightarrow> world \<Rightarrow> (error + datadogRole option) \<times> world" where
  "getRole E name w =
     (case storage_Get E (''role/'' @ name) w of
        (Inl e, w1) \<Rightarrow> (Inl e, w1)
      | (Inr None, w1) \<Rightarrow> (Inr None, w1)
      | (Inr (Some entry), w1) \<Rightarrow>
          (case role_of_json E entry of
             Inl e \<Rightarrow> (Inl e, w1)
           | Inr role \<Rightarrow> (Inr (Some role), w1)))"

text \<open>
  The block \<^verbatim>\<open>if b.client == nil { ... }\<close> that opens the work of both
  \<^verbatim>\<open>pathKeysRead\<close> and \<^verbatim>\<open>secretKeysRevoke\<close>: \<open>Inl\<close> is the early return.
\<close>

definition ensureClient :: "env \<Rightarrow> backend \<Rightarrow> world \<Rightarrow> (result + client) \<times> backend \<times> world" where
  "ensureClient E b w =
     (case client b of
        Some c \<Rightarrow> (Inr c, b, w)
      | None \<Rightarrow>
          (case getConfig E w of
             (Inl e, w1) \<Rightarrow> (Inl (Fail e), b, w1)
           | (Inr None, w1) \<Rightarrow>
               (Inl (Return (Some (ErrorResponse ''datadog backend not configured''))), b, w1)
           | (Inr (Some config), w1) \<Rightarrow>
               (let c = Datadog (newDatadogClient (APIKey config) (AppKey config))
                in (Inr c, b\<lparr>client := Some c\<rparr>, w1))))"

text \<open>The key name of \<^verbatim>\<open>pathKeysRead\<close>; \<open>now\<close> is \<^verbatim>\<open>time.Now().Unix()\<close>.\<close>

definition key_name :: "string \<Rightarrow> string \<Rightarrow> int \<Rightarrow> string" where
  "key_name n roleName now =
     (if n = [] then ''vault-'' @ roleName @ ''-'' @ show_int now else n)"

text \<open>
  \<^verbatim>\<open>pathKeysRead\<close> from \<^verbatim>\<open>respData := make(...)\<close> on: the two provider calls, the
  response and its secret.
\<close>

definition create_keys :: "env \<Rightarrow> client \<Rightarrow> datadogRole \<Rightarrow> string \<Rightarrow> world \<Rightarrow> result \<times> world" where
  "create_keys E c role keyName w =
     (case (if KeyType role = ''api_key'' \<or> KeyType role = ''both''
            then (case client_createAPIKey E c keyName w of
                    (Inl e, w1) \<Rightarrow> (Inl e, w1)
                  | (Inr k, w1) \<Rightarrow> (Inr (k, [''api_key'' \<mapsto> VString k]), w1))
            else (Inr ([], Map.empty), w)) of
        (Inl e, w1) \<Rightarrow> (Fail (Wrapped ''error creating API key'' e), w1)
      | (Inr (api, respData1), w1) \<Rightarrow>
          (case (if KeyType role = ''app_key'' \<or> KeyType role = ''both''
                 then (case client_createAppKey E c keyName (Scopes role) w1 of
                         (Inl e, w2) \<Rightarrow> (Inl e, w2)
                       | (Inr k, w2) \<Rightarrow> (Inr (k, respData1(''app_key'' \<mapsto> VString k)), w2))
                 else (Inr ([], respData1), w1)) of
             (Inl e, w2) \<Rightarrow> (Fail (Wrapped ''error creating Application key'' e), w2)
           | (Inr (app, respData2), w2) \<Rightarrow>
               (Return (Some
                  \<lparr>Data = respData2,
                   Secret = Some
                     \<lparr>InternalData = [''api_key'' \<mapsto> VString api, ''app_key'' \<mapsto> VString app,
                                      ''key_type'' \<mapsto> VString (KeyType role)],
                      LeaseOptions = \<lparr>lease_TTL = seconds (TTL role),
                                      lease_MaxTTL = seconds (MaxTTL role),
                                      Renewable = True\<rparr>\<rparr>\<rparr>), w2)))"

definition pathKeysRead ::
  "env \<Rightarrow> int \<Rightarrow> backend \<Rightarrow> (string \<rightharpoonup> ivalue) \<Rightarrow> world \<Rightarrow> result \<times> backend \<times> world" where
  "pathKeysRead E now b d w =
     (case as_string (Get E pathKeys_Fields d ''role'') of
        None \<Rightarrow> (Panic, b, w)
      | Some roleName \<Rightarrow>
          if roleName = [] then (Return (Some (ErrorResponse ''missing role name'')), b, w)
          else
            (case getRole E roleName w of
               (Inl e, w1) \<Rightarrow> (Fail e, b, w1)
             | (Inr None, w1) \<Rightarrow>
                 (Return (Some (ErrorResponse (''role '' @ quoted roleName @ '' not found''))), b, w1)
             | (Inr (Some role), w1) \<Rightarrow>
                 (case ensureClient E b w1 of
                    (Inl r, b2, w2) \<Rightarrow> (r, b2, w2)
                  | (Inr c, b2, w2) \<Rightarrow>
                      (case as_string (Get E pathKeys_Fields d ''name'') of
                         None \<Rightarrow> (Panic, b2, w2)
                       | Some n \<Rightarrow>
                           (case create_keys E c role (key_name n roleName now) w2 of
                              (r, w3) \<Rightarrow> (r, b2, w3))))))"

text \<open>
  \<^verbatim>\<open>secretKeysRevoke\<close>; \<open>sec\<close> is \<^verbatim>\<open>req.Secret\<close>, which the handler dereferences
  without a check.
\<close>

definition revoke_keys :: "env \<Rightarrow> client \<Rightarrow> (string \<rightharpoonup> ivalue) \<Rightarrow> string \<Rightarrow> world \<Rightarrow> result \<times> world" where
  "revoke_keys E c idata keyType w =
     (case (if keyType = ''api_key'' \<or> keyType = ''both''
            then (case as_string (idata ''api_key'') of
                    Some k \<Rightarrow> if k \<noteq> [] then client_deleteAPIKey E c k w else (None, w)
                  | None \<Rightarrow> (None, w))
            else (None, w)) of
        (Some e, w1) \<Rightarrow> (Fail (Wrapped ''error revoking API key'' e), w1)
      | (None, w1) \<Rightarrow>
          (case (if keyType = ''app_key'' \<or> keyType = ''both''
                 then (case as_string (idata ''app_key'') of
                         Some k \<Rightarrow> if k \<noteq> [] then client_deleteAppKey E c k w1 else (None, w1)
                       | None \<Rightarrow> (None, w1))
                 else (None, w1)) of
             (Some e, w2) \<Rightarrow> (Fail (Wrapped ''error revoking Application key'' e), w2)
           | (None, w2) \<Rightarrow> (Return None, w2)))"

definition secretKeysRevoke ::
  "env \<Rightarrow> backend \<Rightarrow> secret option \<Rightarrow> world \<Rightarrow> result \<times> backend \<times> world" where
  "secretKeysRevoke E b sec w =
     (case ensureClient E b w of
        (Inl r, b1, w1) \<Rightarrow> (r, b1, w1)
      | (Inr c, b1, w1) \<Rightarrow>
          (case sec of
             None \<Rightarrow> (Panic, b1, w1)
           | Some s \<Rightarrow>
               (case as_string (InternalData s ''key_type'') of
                  None \<Rightarrow> (Panic, b1, w1)
                | Some keyType \<Rightarrow>
                    (case revoke_keys E c (InternalData s) keyType w1 of
                       (r, w2) \<Rightarrow> (r, b1, w2)))))"

text \<open>
  When the block above ends with a client: one is cached, or storage answers the read of
  \<open>config\<close> with an entry that decodes.
\<close>

definition client_at_hand :: "env \<Rightarrow> backend \<Rightarrow> world \<Rightarrow> bool" where
  "client_at_hand E b w \<longleftrightarrow>
     client b \<noteq> None \<or>
     (storage_fault E (sops w) (SGet ''config'') = None \<and>
      (case store w ''config'' of
         None \<Rightarrow> False
       | Some entry \<Rightarrow> (case config_of_json E entry of Inl e \<Rightarrow> False | Inr config \<Rightarrow> True)))"

section \<open>The revocation of section 4.5, as the specification words it\<close>

text \<open>
  The deletions a recorded credential set calls for: the API key when the recorded key
  type is \<open>api_key\<close> or \<open>both\<close> and a non-empty API key value is recorded, then the
  application key when the type is \<open>app_key\<close> or \<open>both\<close> and a non-empty application
  key value is recorded. \<open>revoke_in_order\<close> performs them one after the other and stops at
  the first that fails.
\<close>

datatype deletion = DelAPI string | DelApp string

fun call_of :: "deletion \<Rightarrow> call" where
  "call_of (DelAPI k) = DeleteAPIKey k"
| "call_of (DelApp k) = DeleteAppKey k"

fun perform :: "env \<Rightarrow> client \<Rightarrow> deletion \<Rightarrow> world \<Rightarrow> error option \<times> world" where
  "perform E c (DelAPI k) w = client_deleteAPIKey E c k w"
| "perform E c (DelApp k) w = client_deleteAppKey E c k w"

fun revoke_label :: "deletion \<Rightarrow> string" where
  "revoke_label (DelAPI k) = ''error revoking API key''"
| "revoke_label (DelApp k) = ''error revoking Application key''"

fun revoke_in_order :: "env \<Rightarrow> client \<Rightarrow> deletion list \<Rightarrow> world \<Rightarrow> result \<times> world" where
  "revoke_in_order E c [] w = (Return None, w)"
| "revoke_in_order E c (d # ds) w =
     (case perform E c d w of
        (Some e, w1) \<Rightarrow> (Fail (Wrapped (revoke_label d) e), w1)
      | (None, w1) \<Rightarrow> revoke_in_order E c ds w1)"

definition recorded_deletions :: "(string \<rightharpoonup> ivalue) \<Rightarrow> string \<Rightarrow> deletion list" where
  "recorded_deletions idata keyType =
     (if keyType = ''api_key'' \<or> keyType = ''both''
      then (case as_string (idata ''api_key'') of
              Some k \<Rightarrow> if k \<noteq> [] then [DelAPI k] else []
            | None \<Rightarrow> [])
      else [])
     @
     (if keyType = ''app_key'' \<or> keyType = ''both''
      then (case as_string (idata ''app_key'') of
              Some k \<Rightarrow> if k \<noteq> [] then [DelApp k] else []
            | None \<Rightarrow> [])
      else [])"

section \<open>Example inputs\<close>

text \<open>The scenario of backend\_test.go: a mocked client, role \<open>test-role\<close>, keys \<open>test-keys\<close>.\<close>

definition test_env :: env where
  "test_env =
     \<lparr>json_encode = (\<lambda>p. Inr ''{}''),
      new_request = (\<lambda>m u. None),
      client_Do = (\<lambda>h rq. (Inr \<lparr>StatusCode = 200, Body = ''{}''\<rparr>, [rq])),
      json_decode_field = (\<lambda>f bdy. Inr ''created-key''),
      storage_fault = (\<lambda>h x. None),
      role_to_json = (\<lambda>r. Inr ''{role}''),
      role_of_json = (\<lambda>s. Inr \<lparr>KeyType = ''both'', Scopes = [''logs_read''], TTL = 3600, MaxTTL = 86400\<rparr>),
      config_of_json = (\<lambda>s. Inr \<lparr>APIKey = ''admin-api-key'', AppKey = ''admin-app-key''\<rparr>),
      weak_decode_string =
        (\<lambda>v. case v of VInt n \<Rightarrow> Inr (show_int n)
              | VBool b \<Rightarrow> Inr (if b then ''1'' else ''0'')
              | _ \<Rightarrow> Inl (Error ''unconvertible type'')),
      parse_comma_string_slice =
        (\<lambda>v. case v of VStrings xs \<Rightarrow> Inr xs | VNil \<Rightarrow> Inr []
              | _ \<Rightarrow> Inl (Error ''not a list of strings'')),
      parse_duration_second = (\<lambda>v. Inl (Error ''not a duration''))\<rparr>"

definition test_mock :: mockDatadogClient where
  "test_mock =
     \<lparr>on_createAPIKey = (\<lambda>h n. Inr ''test-api-key''),
      on_createAppKey = (\<lambda>h n sc. Inr ''test-app-key''),
      on_deleteAPIKey = (\<lambda>h k. None),
      on_deleteAppKey = (\<lambda>h k. None)\<rparr>"

definition test_backend :: backend where
  "test_backend = \<lparr>client = Some (Mock test_mock)\<rparr>"

definition empty_world :: world where
  "empty_world = \<lparr>store = Map.empty, sops = [], calls = [], do_log = [], wire_log = []\<rparr>"

definition test_secret :: secret where
  "test_secret =
     \<lparr>InternalData = [''key_type'' \<mapsto> VString ''both'', ''api_key'' \<mapsto> VString ''test-api-key'',
                      ''app_key'' \<mapsto> VString ''test-app-key''],
      LeaseOptions = \<lparr>lease_TTL = 3600, lease_MaxTTL = 86400, Renewable = False\<rparr>\<rparr>"

definition both_role :: datadogRole where
  "both_role = \<lparr>KeyType = ''both'', Scopes = [''logs_read''], TTL = 3600, MaxTTL = 86400\<rparr>"

definition api_role :: datadogRole where
  "api_role = \<lparr>KeyType = ''api_key'', Scopes = [], TTL = 3600, MaxTTL = 86400\<rparr>"

definition entries_env :: env where
  "entries_env = test_env\<lparr>role_of_json :=
     (\<lambda>s. if s = ''both-role'' then Inr both_role
          else if s = ''api-role'' then Inr api_role
          else Inl (Error ''invalid character''))\<rparr>"

definition role_world :: world where
  "role_world = empty_world\<lparr>store := [''role/test-role'' \<mapsto> ''both-role'',
                                       ''role/api-only'' \<mapsto> ''api-role'']\<rparr>"

definition test_data :: "string \<rightharpoonup> ivalue" where
  "test_data = [''role'' \<mapsto> VString ''test-role'', ''name'' \<mapsto> VString ''test-keys'']"

definition failing_mock :: mockDatadogClient where
  "failing_mock = test_mock\<lparr>on_createAPIKey := (\<lambda>h n. Inl (Error ''datadog API request failed with status 403''))\<rparr>"

definition api_only_data :: "string \<rightharpoonup> ivalue" where
  "api_only_data = [''role'' \<mapsto> VString ''api-only'', ''name'' \<mapsto> VString ''test-keys'']"

definition unknown_role_data :: "string \<rightharpoonup> ivalue" where
  "unknown_role_data = [''role'' \<mapsto> VString ''nobody'']"

definition fresh_backend :: backend where
  "fresh_backend = \<lparr>client = None\<rparr>"

definition bogus_type_data :: "string \<rightharpoonup> ivalue" where
  "bogus_type_data = [''name'' \<mapsto> VString ''test-role'', ''key_type'' \<mapsto> VString ''password'']"

definition long_ttl_data :: "string \<rightharpoonup> ivalue" where
  "long_ttl_data = [''name'' \<mapsto> VString ''test-role'', ''key_type'' \<mapsto> VString ''both'',
                    ''ttl'' \<mapsto> VInt 7200, ''max_ttl'' \<mapsto> VInt 3600]"

definition not_modified :: http_response where
  "not_modified = \<lparr>StatusCode = 304, Body = []\<rparr>"

definition server_error :: http_response where
  "server_error = \<lparr>StatusCode = 500, Body = []\<rparr>"

definition answering :: "http_response \<Rightarrow> env" where
  "answering resp = test_env\<lparr>client_Do := (\<lambda>h rq. (Inr resp, [rq]))\<rparr>"

definition redirected_to :: "http_request \<Rightarrow> http_response \<Rightarrow> env" where
  "redirected_to rq' resp = test_env\<lparr>client_Do := (\<lambda>h rq. (Inr resp, [rq, rq']))\<rparr>"

definition config_world :: world where
  "config_world = empty_world\<lparr>store := [''config'' \<mapsto> ''admin-config'']\<rparr>"

definition admin_client :: datadogClient where
  "admin_client = newDatadogClient ''admin-api-key'' ''admin-app-key''"

definition moved_request :: http_request where
  "moved_request =
     (build_request admin_client ''DELETE'' ''/api_key/test-api-key'' [])
       \<lparr>req_url := ''https://api.datadoghq.eu/api/v1/api_key/test-api-key''\<rparr>"

definition nameless_data :: "string \<rightharpoonup> ivalue" where
  "nameless_data = [''role'' \<mapsto> VString ''test-role'']"

definition nil_name_data :: "string \<rightharpoonup> ivalue" where
  "nil_name_data = [''role'' \<mapsto> VString ''test-role'', ''name'' \<mapsto> VNil]"

definition empty_name_data :: "string \<rightharpoonup> ivalue" where
  "empty_name_data = [''role'' \<mapsto> VString ''test-role'', ''name'' \<mapsto> VString []]"

definition untyped_secret :: secret where
  "untyped_secret =
     \<lparr>InternalData = [''api_key'' \<mapsto> VString ''test-api-key'', ''app_key'' \<mapsto> VString ''test-app-key''],
      LeaseOptions = \<lparr>lease_TTL = 3600, lease_MaxTTL = 86400, Renewable = False\<rparr>\<rparr>"

section \<open>What each operation leaves unchanged\<close>

lemma show_500: "show_int 500 = ''500''"
  by (simp add: show_int_def show_nat.simps digit_def)

lemma send_frame:
  "send E rq w = (r, w') \<Longrightarrow>
     store w' = store w \<and> sops w' = sops w \<and> calls w' = calls w \<and> do_log w' = do_log w @ [rq]"
  by (auto simp: send_def Let_def split: prod.splits sum.splits if_splits)

lemma doRequest_frame:
  "doRequest E c meth path payload w = (r, w') \<Longrightarrow>
     store w' = store w \<and> sops w' = sops w \<and> calls w' = calls w"
  by (auto simp: doRequest_def split: sum.splits option.splits dest: send_frame)

lemma createAPIKey_frame:
  "createAPIKey E c n w = (r, w') \<Longrightarrow> store w' = store w \<and> sops w' = sops w \<and> calls w' = calls w"
  by (auto simp: createAPIKey_def split: sum.splits prod.splits dest: doRequest_frame)

lemma createAppKey_frame:
  "createAppKey E c n sc w = (r, w') \<Longrightarrow> store w' = store w \<and> sops w' = sops w \<and> calls w' = calls w"
  by (auto simp: createAppKey_def split: sum.splits prod.splits dest: doRequest_frame)

lemma deleteAPIKey_frame:
  "deleteAPIKey E c k w = (r, w') \<Longrightarrow> store w' = store w \<and> sops w' = sops w \<and> calls w' = calls w"
  by (auto simp: deleteAPIKey_def split: sum.splits prod.splits dest: doRequest_frame)

lemma deleteAppKey_frame:
  "deleteAppKey E c k w = (r, w') \<Longrightarrow> store w' = store w \<and> sops w' = sops w \<and> calls w' = calls w"
  by (auto simp: deleteAppKey_def split: sum.splits prod.splits dest: doRequest_frame)

lemma client_createAPIKey_frame:
  "client_createAPIKey E c n w = (r, w') \<Longrightarrow>
     store w' = store w \<and> sops w' = sops w \<and> calls w' = calls w @ [CreateAPIKey n]"
  by (auto simp: client_createAPIKey_def Let_def split: client.splits dest: createAPIKey_frame)

lemma client_createAppKey_frame:
  "client_createAppKey E c n sc w = (r, w') \<Longrightarrow>
     store w' = store w \<and> sops w' = sops w \<and> calls w' = calls w @ [CreateAppKey n sc]"
  by (auto simp: client_createAppKey_def Let_def split: client.splits dest: createAppKey_frame)

lemma client_deleteAPIKey_frame:
  "client_deleteAPIKey E c k w = (r, w') \<Longrightarrow>
     store w' = store w \<and> sops w' = sops w \<and> calls w' = calls w @ [DeleteAPIKey k]"
  by (auto simp: client_deleteAPIKey_def Let_def split: client.splits dest: deleteAPIKey_frame)

lemma client_deleteAppKey_frame:
  "client_deleteAppKey E c k w = (r, w') \<Longrightarrow>
     store w' = store w \<and> sops w' = sops w \<and> calls w' = calls w @ [DeleteAppKey k]"
  by (auto simp: client_deleteAppKey_def Let_def split: client.splits dest: deleteAppKey_frame)

lemma storage_Get_frame:
  "storage_Get E key w = (r, w') \<Longrightarrow> w' = w\<lparr>sops := sops w @ [SGet key]\<rparr>"
  by (auto simp: storage_Get_def Let_def split: option.splits)

lemma getRole_frame:
  "getRole E n w = (r, w') \<Longrightarrow> w' = w\<lparr>sops := sops w @ [SGet (''role/'' @ n)]\<rparr>"
  by (auto simp: getRole_def split: prod.splits sum.splits option.splits dest: storage_Get_frame)

lemma getConfig_frame:
  "getConfig E w = (r, w') \<Longrightarrow> w' = w\<lparr>sops := sops w @ [SGet ''config'']\<rparr>"
  by (auto simp: getConfig_def split: prod.splits sum.splits option.splits dest: storage_Get_frame)

lemma ensureClient_frame:
  "ensureClient E b w = (r, b', w') \<Longrightarrow>
     w' = w\<lparr>sops := sops w @ (if client b = None then [SGet ''config''] else [])\<rparr>"
  by (auto simp: ensureClient_def Let_def split: prod.splits sum.splits option.splits dest: getConfig_frame)

lemma revoke_keys_in_order:
  "revoke_keys E c idata kt w = revoke_in_order E c (recorded_deletions idata kt) w"
  unfolding revoke_keys_def recorded_deletions_def
  by (auto split: prod.splits option.splits)

lemma perform_frame:
  "perform E c d w = (r, w') \<Longrightarrow>
     store w' = store w \<and> sops w' = sops w \<and> calls w' = calls w @ [call_of d]"
  by (cases d) (auto dest: client_deleteAPIKey_frame client_deleteAppKey_frame)

lemma revoke_in_order_trace:
  "revoke_in_order E c ds w = (r, w') \<Longrightarrow>
     store w' = store w \<and> sops w' = sops w \<and>
     (\<exists>n. calls w' = calls w @ map call_of (take n ds)) \<and>
     (r = Return None \<longrightarrow> calls w' = calls w @ map call_of ds)"
proof (induction ds arbitrary: w)
  case Nil
  then show ?case by simp
next
  case (Cons d ds)
  obtain x w1 where p: "perform E c d w = (x, w1)" by (cases "perform E c d w")
  note f = perform_frame [OF p]
  show ?case
  proof (cases x)
    case None
    with p Cons.prems have "revoke_in_order E c ds w1 = (r, w')" by simp
    from Cons.IH [OF this] obtain n where
      n: "calls w' = calls w1 @ map call_of (take n ds)"
      and rest: "store w' = store w1" "sops w' = sops w1"
        "r = Return None \<longrightarrow> calls w' = calls w1 @ map call_of ds"
      by blast
    from n f have "calls w' = calls w @ map call_of (take (Suc n) (d # ds))" by simp
    then have "\<exists>n. calls w' = calls w @ map call_of (take n (d # ds))" by blast
    with rest f show ?thesis by simp
  next
    case (Some e)
    with p Cons.prems have r: "r = Fail (Wrapped (revoke_label d) e)" and w: "w' = w1" by simp_all
    from f w have "calls w' = calls w @ map call_of (take 1 (d # ds))" by simp
    then have "\<exists>n. calls w' = calls w @ map call_of (take n (d # ds))" by blast
    with r w f show ?thesis by simp
  qed
qed

lemma ensureClient_Inl:
  "ensureClient E b w = (Inl r, b', w') \<Longrightarrow>
     b' = b \<and> client b = None \<and> r \<noteq> Return None \<and> r \<noteq> Panic \<and>
     (\<forall>resp. r = Return (Some resp) \<longrightarrow> resp = ErrorResponse ''datadog backend not configured'')"
  by (auto simp: ensureClient_def Let_def split: option.splits prod.splits sum.splits)

section \<open>Revocation does not depend on the stored roles\<close>

lemma send_store:
  "send E rq (w\<lparr>store := st\<rparr>) = (case send E rq w of (r, w') \<Rightarrow> (r, w'\<lparr>store := st\<rparr>))"
  by (simp add: send_def Let_def split: prod.splits sum.splits)

lemma doRequest_store:
  "doRequest E c meth path payload (w\<lparr>store := st\<rparr>)
     = (case doRequest E c meth path payload w of (r, w') \<Rightarrow> (r, w'\<lparr>store := st\<rparr>))"
  by (simp add: doRequest_def send_store split: sum.splits option.splits)

lemma deleteAPIKey_store:
  "deleteAPIKey E c k (w\<lparr>store := st\<rparr>)
     = (case deleteAPIKey E c k w of (r, w') \<Rightarrow> (r, w'\<lparr>store := st\<rparr>))"
  by (simp add: deleteAPIKey_def doRequest_store split: prod.splits sum.splits)

lemma deleteAppKey_store:
  "deleteAppKey E c k (w\<lparr>store := st\<rparr>)
     = (case deleteAppKey E c k w of (r, w') \<Rightarrow> (r, w'\<lparr>store := st\<rparr>))"
  by (simp add: deleteAppKey_def doRequest_store split: prod.splits sum.splits)

lemma client_deleteAPIKey_store:
  "client_deleteAPIKey E c k (w\<lparr>store := st\<rparr>)
     = (case client_deleteAPIKey E c k w of (r, w') \<Rightarrow> (r, w'\<lparr>store := st\<rparr>))"
proof -
  let ?w1 = "w\<lparr>calls := calls w @ [DeleteAPIKey k]\<rparr>"
  have comm: "w\<lparr>store := st, calls := calls w @ [DeleteAPIKey k]\<rparr> = ?w1\<lparr>store := st\<rparr>"
    by simp
  have "client_deleteAPIKey E c k (w\<lparr>store := st\<rparr>)
          = (case c of Datadog cl \<Rightarrow> deleteAPIKey E cl k (?w1\<lparr>store := st\<rparr>)
             | Mock m \<Rightarrow> (on_deleteAPIKey m (calls w) k, ?w1\<lparr>store := st\<rparr>))"
    by (simp add: client_deleteAPIKey_def Let_def comm split: client.splits)
  also have "\<dots> = (case client_deleteAPIKey E c k w of (r, w') \<Rightarrow> (r, w'\<lparr>store := st\<rparr>))"
    unfolding deleteAPIKey_store
    by (simp add: client_deleteAPIKey_def Let_def split: client.splits)
  finally show ?thesis .
qed

lemma client_deleteAppKey_store:
  "client_deleteAppKey E c k (w\<lparr>store := st\<rparr>)
     = (case client_deleteAppKey E c k w of (r, w') \<Rightarrow> (r, w'\<lparr>store := st\<rparr>))"
proof -
  let ?w1 = "w\<lparr>calls := calls w @ [DeleteAppKey k]\<rparr>"
  have comm: "w\<lparr>store := st, calls := calls w @ [DeleteAppKey k]\<rparr> = ?w1\<lparr>store := st\<rparr>"
    by simp
  have "client_deleteAppKey E c k (w\<lparr>store := st\<rparr>)
          = (case c of Datadog cl \<Rightarrow> deleteAppKey E cl k (?w1\<lparr>store := st\<rparr>)
             | Mock m \<Rightarrow> (on_deleteAppKey m (calls w) k, ?w1\<lparr>store := st\<rparr>))"
    by (simp add: client_deleteAppKey_def Let_def comm split: client.splits)
  also have "\<dots> = (case client_deleteAppKey E c k w of (r, w') \<Rightarrow> (r, w'\<lparr>store := st\<rparr>))"
    unfolding deleteAppKey_store
    by (simp add: client_deleteAppKey_def Let_def split: client.splits)
  finally show ?thesis .
qed

lemma perform_store:
  "perform E c d (w\<lparr>store := st\<rparr>)
     = (case perform E c d w of (r, w') \<Rightarrow> (r, w'\<lparr>store := st\<rparr>))"
  by (cases d) (simp_all add: client_deleteAPIKey_store client_deleteAppKey_store)

lemma revoke_in_order_store:
  "revoke_in_order E c ds (w\<lparr>store := st\<rparr>)
     = (case revoke_in_order E c ds w of (r, w') \<Rightarrow> (r, w'\<lparr>store := st\<rparr>))"
proof (induction ds arbitrary: w)
  case Nil
  then show ?case by simp
next
  case (Cons d ds)
  obtain x w1 where p: "perform E c d w = (x, w1)" by (cases "perform E c d w")
  then have "perform E c d (w\<lparr>store := st\<rparr>) = (x, w1\<lparr>store := st\<rparr>)"
    by (simp add: perform_store)
  with p Cons.IH [of w1] show ?case by (cases x) simp_all
qed

lemma ensureClient_store:
  assumes "st ''config'' = store w ''config''"
  shows "ensureClient E b (w\<lparr>store := st\<rparr>)
     = (case ensureClient E b w of (r, b', w') \<Rightarrow> (r, b', w'\<lparr>store := st\<rparr>))"
  using assms
  by (simp add: ensureClient_def getConfig_def storage_Get_def Let_def
      split: option.splits sum.splits)

lemma secretKeysRevoke_store:
  assumes "st ''config'' = store w ''config''"
  shows "secretKeysRevoke E b sec (w\<lparr>store := st\<rparr>)
     = (case secretKeysRevoke E b sec w of (r, b', w') \<Rightarrow> (r, b', w'\<lparr>store := st\<rparr>))"
  by (simp add: secretKeysRevoke_def ensureClient_store [of st w, OF assms] revoke_keys_in_order
      revoke_in_order_store split: prod.splits sum.splits option.splits)

section \<open>Obtaining the client, and the deletions in order\<close>

lemma ensureClient_cached:
  "client b = Some c \<Longrightarrow> ensureClient E b w = (Inr c, b, w)"
  by (simp add: ensureClient_def)

lemma ensureClient_configured:
  assumes "client b = None" "storage_fault E (sops w) (SGet ''config'') = None"
    and "store w ''config'' = Some entry" "config_of_json E entry = Inr config"
  shows "ensureClient E b w =
     (Inr (Datadog (newDatadogClient (APIKey config) (AppKey config))),
      b\<lparr>client := Some (Datadog (newDatadogClient (APIKey config) (AppKey config)))\<rparr>,
      w\<lparr>sops := sops w @ [SGet ''config'']\<rparr>)"
  using assms by (simp add: ensureClient_def getConfig_def storage_Get_def Let_def)

lemma ensureClient_at_hand:
  "client_at_hand E b w \<longleftrightarrow> (\<exists>c b1 w1. ensureClient E b w = (Inr c, b1, w1))"
  by (auto simp: client_at_hand_def ensureClient_def getConfig_def storage_Get_def Let_def
      split: option.splits sum.splits)

lemma revoke_in_order_outcome:
  "revoke_in_order E c ds w = (r, w') \<Longrightarrow>
     (r = Return None \<and> calls w' = calls w @ map call_of ds)
     \<or> (\<exists>n e. n < length ds \<and> calls w' = calls w @ map call_of (take (Suc n) ds)
           \<and> r = Fail (Wrapped (revoke_label (ds ! n)) e))"
proof (induction ds arbitrary: w)
  case Nil
  then show ?case by simp
next
  case (Cons d ds)
  obtain x w1 where p: "perform E c d w = (x, w1)" by (cases "perform E c d w")
  note f = perform_frame [OF p]
  show ?case
  proof (cases x)
    case None
    with p Cons.prems have "revoke_in_order E c ds w1 = (r, w')" by simp
    from Cons.IH [OF this] show ?thesis
    proof
      assume "r = Return None \<and> calls w' = calls w1 @ map call_of ds"
      with f show ?thesis by simp
    next
      assume "\<exists>n e. n < length ds \<and> calls w' = calls w1 @ map call_of (take (Suc n) ds)
           \<and> r = Fail (Wrapped (revoke_label (ds ! n)) e)"
      then obtain n e where n: "n < length ds"
        "calls w' = calls w1 @ map call_of (take (Suc n) ds)"
        "r = Fail (Wrapped (revoke_label (ds ! n)) e)" by blast
      with f have "Suc n < length (d # ds)
          \<and> calls w' = calls w @ map call_of (take (Suc (Suc n)) (d # ds))
          \<and> r = Fail (Wrapped (revoke_label ((d # ds) ! Suc n)) e)" by simp
      then show ?thesis by blast
    qed
  next
    case (Some e)
    with p Cons.prems have "r = Fail (Wrapped (revoke_label d) e)" "w' = w1" by simp_all
    with f have "0 < length (d # ds)
          \<and> calls w' = calls w @ map call_of (take (Suc 0) (d # ds))
          \<and> r = Fail (Wrapped (revoke_label ((d # ds) ! 0)) e)" by simp
    then show ?thesis by blast
  qed
qed

section \<open>Revocation\<close>

text \<open>
  C1. Revocation of a recorded credential set \<open>s\<close> whose \<open>key_type\<close> is the string
  \<open>kt\<close>. With a cached client, and likewise with no client cached but a stored
  configuration (the client is then built from it and cached), the handler is
  \<open>revoke_in_order\<close> on the deletions recorded in \<open>s\<close>: the API key, then the application
  key, each with the recorded value, and the first deletion that fails ends the
  revocation with the wrapped error. So with a client at hand, either revocation returns
  success and its provider calls are exactly the recorded deletions, or it returns the
  wrapped error of a deletion and its provider calls are the recorded deletions up to that
  one. With no client at hand it returns an error or the not-configured response and
  calls nothing. The only storage operation is the read of \<open>config\<close> when no client is
  cached, so no role is read, and the outcome is the same for any other content of storage
  with the same \<open>config\<close> entry (roles changed or deleted).
\<close>

theorem revoke_calls_recorded_deletes:
  assumes kt: "InternalData s ''key_type'' = Some (VString kt)"
    and run: "secretKeysRevoke E b (Some s) w = (r, b', w')"
  shows "(\<forall>c. client b = Some c \<longrightarrow>
            b' = b \<and> (r, w') = revoke_in_order E c (recorded_deletions (InternalData s) kt) w)
       \<and> (\<forall>entry config.
            client b = None \<and> storage_fault E (sops w) (SGet ''config'') = None
            \<and> store w ''config'' = Some entry \<and> config_of_json E entry = Inr config \<longrightarrow>
            b' = b\<lparr>client := Some (Datadog (newDatadogClient (APIKey config) (AppKey config)))\<rparr>
            \<and> (r, w') = revoke_in_order E (Datadog (newDatadogClient (APIKey config) (AppKey config)))
                           (recorded_deletions (InternalData s) kt)
                           (w\<lparr>sops := sops w @ [SGet ''config'']\<rparr>))
       \<and> (client_at_hand E b w \<longrightarrow>
            (r = Return None
               \<and> calls w' = calls w @ map call_of (recorded_deletions (InternalData s) kt))
            \<or> (\<exists>n e. n < length (recorded_deletions (InternalData s) kt)
                  \<and> calls w' = calls w
                       @ map call_of (take (Suc n) (recorded_deletions (InternalData s) kt))
                  \<and> r = Fail (Wrapped (revoke_label (recorded_deletions (InternalData s) kt ! n)) e)))
       \<and> (\<not> client_at_hand E b w \<longrightarrow>
            calls w' = calls w \<and> do_log w' = do_log w \<and> wire_log w' = wire_log w \<and> b' = b
            \<and> r \<noteq> Return None \<and> r \<noteq> Panic)
       \<and> sops w' = sops w @ (if client b = None then [SGet ''config''] else [])
       \<and> store w' = store w
       \<and> (\<forall>st. st ''config'' = store w ''config'' \<longrightarrow>
            secretKeysRevoke E b (Some s) (w\<lparr>store := st\<rparr>) = (r, b', w'\<lparr>store := st\<rparr>))"
proof -
  let ?D = "recorded_deletions (InternalData s) kt"
  obtain x b1 w1 where ec: "ensureClient E b w = (x, b1, w1)"
    by (cases "ensureClient E b w") auto
  note ef = ensureClient_frame [OF ec]
  have reached: "b' = b1 \<and> (r, w') = revoke_in_order E c ?D w1"
    if "ensureClient E b w = (Inr c, b1, w1)" for c b1 w1
    using that run kt
    by (auto simp: secretKeysRevoke_def revoke_keys_in_order split: prod.splits)
  have 1: "\<forall>c. client b = Some c \<longrightarrow> b' = b \<and> (r, w') = revoke_in_order E c ?D w"
    using reached ensureClient_cached by blast
  have 2: "\<forall>entry config.
            client b = None \<and> storage_fault E (sops w) (SGet ''config'') = None
            \<and> store w ''config'' = Some entry \<and> config_of_json E entry = Inr config \<longrightarrow>
            b' = b\<lparr>client := Some (Datadog (newDatadogClient (APIKey config) (AppKey config)))\<rparr>
            \<and> (r, w') = revoke_in_order E (Datadog (newDatadogClient (APIKey config) (AppKey config)))
                           ?D (w\<lparr>sops := sops w @ [SGet ''config'']\<rparr>)"
    using reached ensureClient_configured by blast
  have 3: "client_at_hand E b w \<longrightarrow>
            (r = Return None \<and> calls w' = calls w @ map call_of ?D)
            \<or> (\<exists>n e. n < length ?D \<and> calls w' = calls w @ map call_of (take (Suc n) ?D)
                  \<and> r = Fail (Wrapped (revoke_label (?D ! n)) e))"
  proof
    assume "client_at_hand E b w"
    then obtain c b2 w2 where e2: "ensureClient E b w = (Inr c, b2, w2)"
      by (auto simp: ensureClient_at_hand)
    from reached [OF e2] have "revoke_in_order E c ?D w2 = (r, w')" by simp
    from revoke_in_order_outcome [OF this] ensureClient_frame [OF e2]
    show "(r = Return None \<and> calls w' = calls w @ map call_of ?D)
            \<or> (\<exists>n e. n < length ?D \<and> calls w' = calls w @ map call_of (take (Suc n) ?D)
                  \<and> r = Fail (Wrapped (revoke_label (?D ! n)) e))"
      by simp
  qed
  have 4: "\<not> client_at_hand E b w \<longrightarrow>
            calls w' = calls w \<and> do_log w' = do_log w \<and> wire_log w' = wire_log w \<and> b' = b
            \<and> r \<noteq> Return None \<and> r \<noteq> Panic"
  proof
    assume "\<not> client_at_hand E b w"
    with ec obtain r0 where x: "x = Inl r0" by (cases x) (auto simp: ensureClient_at_hand)
    with ec run have "r = r0" "w' = w1" "b' = b1" by (simp_all add: secretKeysRevoke_def)
    with ensureClient_Inl [of E b w r0 b1 w1] ec x ef
    show "calls w' = calls w \<and> do_log w' = do_log w \<and> wire_log w' = wire_log w \<and> b' = b
            \<and> r \<noteq> Return None \<and> r \<noteq> Panic"
      by simp
  qed
  have 5: "sops w' = sops w @ (if client b = None then [SGet ''config''] else []) \<and> store w' = store w"
  proof (cases x)
    case (Inl r0)
    with ec run have "w' = w1" by (simp add: secretKeysRevoke_def)
    with ef show ?thesis by simp
  next
    case (Inr c)
    with ec have "ensureClient E b w = (Inr c, b1, w1)" by simp
    from reached [OF this] have "revoke_in_order E c ?D w1 = (r, w')" by simp
    from revoke_in_order_trace [OF this] ef show ?thesis by simp
  qed
  have 6: "\<forall>st. st ''config'' = store w ''config'' \<longrightarrow>
            secretKeysRevoke E b (Some s) (w\<lparr>store := st\<rparr>) = (r, b', w'\<lparr>store := st\<rparr>)"
    using run by (simp add: secretKeysRevoke_store)
  from 1 2 3 4 5 6 show ?thesis by (intro conjI) blast+
qed

theorem revoke_calls_recorded_deletes_witness:
  "InternalData test_secret ''key_type'' = Some (VString ''both'')
   \<and> client fresh_backend = None \<and> store config_world ''config'' = Some ''admin-config''
   \<and> fst (secretKeysRevoke test_env fresh_backend (Some test_secret) config_world) = Return None
   \<and> fst (snd (secretKeysRevoke test_env fresh_backend (Some test_secret) config_world))
       = \<lparr>client = Some (Datadog admin_client)\<rparr>
   \<and> calls (snd (snd (secretKeysRevoke test_env fresh_backend (Some test_secret) config_world)))
       = [DeleteAPIKey ''test-api-key'', DeleteAppKey ''test-app-key'']
   \<and> wire_log (snd (snd (secretKeysRevoke test_env fresh_backend (Some test_secret) config_world)))
       = [build_request admin_client ''DELETE'' ''/api_key/test-api-key'' [],
          build_request admin_client ''DELETE'' ''/application_key/test-app-key'' []]
   \<and> fst (secretKeysRevoke (answering server_error) fresh_backend (Some test_secret) config_world)
       = Fail (Wrapped ''error revoking API key'' (Error ''datadog API request failed with status 500''))
   \<and> calls (snd (snd (secretKeysRevoke (answering server_error) fresh_backend (Some test_secret)
                         config_world)))
       = [DeleteAPIKey ''test-api-key'']"
proof -
  let ?D = "[DelAPI ''test-api-key'', DelApp ''test-app-key'']"
  let ?w1 = "config_world\<lparr>sops := sops config_world @ [SGet ''config'']\<rparr>"
  have k: "InternalData test_secret ''key_type'' = Some (VString ''both'')"
    by (simp add: test_secret_def)
  have d: "recorded_deletions (InternalData test_secret) ''both'' = ?D"
    by (simp add: recorded_deletions_def test_secret_def)
  have nc: "client fresh_backend = None" by (simp add: fresh_backend_def)
  have st: "store config_world ''config'' = Some ''admin-config''"
    by (simp add: config_world_def empty_world_def)
  have cl: "newDatadogClient (APIKey \<lparr>APIKey = ''admin-api-key'', AppKey = ''admin-app-key''\<rparr>)
              (AppKey \<lparr>APIKey = ''admin-api-key'', AppKey = ''admin-app-key''\<rparr>) = admin_client"
    by (simp add: admin_client_def)
  have ok: "revoke_in_order test_env (Datadog admin_client) ?D ?w1
      = (Return None,
         ?w1\<lparr>calls := [DeleteAPIKey ''test-api-key'', DeleteAppKey ''test-app-key''],
              do_log := [build_request admin_client ''DELETE'' ''/api_key/test-api-key'' [],
                         build_request admin_client ''DELETE'' ''/application_key/test-app-key'' []],
              wire_log := [build_request admin_client ''DELETE'' ''/api_key/test-api-key'' [],
                           build_request admin_client ''DELETE'' ''/application_key/test-app-key'' []]\<rparr>)"
    by (simp add: client_deleteAPIKey_def client_deleteAppKey_def deleteAPIKey_def
        deleteAppKey_def doRequest_def send_def test_env_def config_world_def empty_world_def
        Let_def)
  have bad: "revoke_in_order (answering server_error) (Datadog admin_client) ?D ?w1
      = (Fail (Wrapped ''error revoking API key'' (Error ''datadog API request failed with status 500'')),
         ?w1\<lparr>calls := [DeleteAPIKey ''test-api-key''],
              do_log := [build_request admin_client ''DELETE'' ''/api_key/test-api-key'' []],
              wire_log := [build_request admin_client ''DELETE'' ''/api_key/test-api-key'' []]\<rparr>)"
    by (simp add: client_deleteAPIKey_def deleteAPIKey_def doRequest_def send_def answering_def
        server_error_def test_env_def config_world_def empty_world_def show_500 Let_def)
  obtain r b' w' where run: "secretKeysRevoke test_env fresh_backend (Some test_secret) config_world
      = (r, b', w')"
    by (cases "secretKeysRevoke test_env fresh_backend (Some test_secret) config_world") auto
  have cfg: "client fresh_backend = None
      \<and> storage_fault test_env (sops config_world) (SGet ''config'') = None
      \<and> store config_world ''config'' = Some ''admin-config''
      \<and> config_of_json test_env ''admin-config''
          = Inr \<lparr>APIKey = ''admin-api-key'', AppKey = ''admin-app-key''\<rparr>"
    using nc st by (simp add: test_env_def)
  from revoke_calls_recorded_deletes [OF k run] cfg
  have "b' = fresh_backend\<lparr>client := Some (Datadog admin_client)\<rparr>
      \<and> (r, w') = revoke_in_order test_env (Datadog admin_client) ?D ?w1"
    unfolding d cl [symmetric] by blast
  with ok run have 1:
    "fst (secretKeysRevoke test_env fresh_backend (Some test_secret) config_world) = Return None"
    "fst (snd (secretKeysRevoke test_env fresh_backend (Some test_secret) config_world))
       = \<lparr>client = Some (Datadog admin_client)\<rparr>"
    "calls (snd (snd (secretKeysRevoke test_env fresh_backend (Some test_secret) config_world)))
       = [DeleteAPIKey ''test-api-key'', DeleteAppKey ''test-app-key'']"
    "wire_log (snd (snd (secretKeysRevoke test_env fresh_backend (Some test_secret) config_world)))
       = [build_request admin_client ''DELETE'' ''/api_key/test-api-key'' [],
          build_request admin_client ''DELETE'' ''/application_key/test-app-key'' []]"
    by (simp_all add: fresh_backend_def)
  obtain r2 b2 w2 where run2:
    "secretKeysRevoke (answering server_error) fresh_backend (Some test_secret) config_world
      = (r2, b2, w2)"
    by (cases "secretKeysRevoke (answering server_error) fresh_backend (Some test_secret) config_world")
      auto
  have cfg2: "client fresh_backend = None
      \<and> storage_fault (answering server_error) (sops config_world) (SGet ''config'') = None
      \<and> store config_world ''config'' = Some ''admin-config''
      \<and> config_of_json (answering server_error) ''admin-config''
          = Inr \<lparr>APIKey = ''admin-api-key'', AppKey = ''admin-app-key''\<rparr>"
    using nc st by (simp add: answering_def test_env_def)
  from revoke_calls_recorded_deletes [OF k run2] cfg2
  have "(r2, w2) = revoke_in_order (answering server_error) (Datadog admin_client) ?D ?w1"
    unfolding d cl [symmetric] by blast
  with bad run2 have 2:
    "fst (secretKeysRevoke (answering server_error) fresh_backend (Some test_secret) config_world)
       = Fail (Wrapped ''error revoking API key'' (Error ''datadog API request failed with status 500''))"
    "calls (snd (snd (secretKeysRevoke (answering server_error) fresh_backend (Some test_secret)
                         config_world)))
       = [DeleteAPIKey ''test-api-key'']"
    by simp_all
  from k nc st 1 2 show ?thesis by simp
qed

lemma seconds_exact:
  assumes "- 9223372036 \<le> n" "n \<le> 9223372036"
  shows "sint (seconds n) = n * 1000000000"
proof -
  have eq: "seconds n = (word_of_int (n * 1000000000) :: 64 word)"
    unfolding seconds_def by simp
  have lo: "- (2 ^ (LENGTH(64) - 1)) \<le> n * 1000000000"
    using assms by simp
  have hi: "n * 1000000000 < 2 ^ (LENGTH(64) - 1)"
    using assms by simp
  have "sint (word_of_int (n * 1000000000) :: 64 word) = n * 1000000000"
    unfolding sint_sbintrunc' using lo hi by (rule signed_take_bit_int_eq_self)
  with eq show ?thesis by (simp only:)
qed

lemma pathKeysRead_found:
  assumes "as_string (Get E pathKeys_Fields d ''role'') = Some roleName"
    and "roleName \<noteq> []"
    and "getRole E roleName w = (Inr (Some role), w1)"
  shows "pathKeysRead E now b d w =
     (case ensureClient E b w1 of
        (Inl r, b2, w2) \<Rightarrow> (r, b2, w2)
      | (Inr c, b2, w2) \<Rightarrow>
          (case as_string (Get E pathKeys_Fields d ''name'') of
             None \<Rightarrow> (Panic, b2, w2)
           | Some n \<Rightarrow>
               (case create_keys E c role (key_name n roleName now) w2 of
                  (r, w3) \<Rightarrow> (r, b2, w3))))"
  using assms by (simp add: pathKeysRead_def)

lemma create_keys_both:
  assumes "KeyType role = ''both''"
  shows "create_keys E c role n w =
     (case client_createAPIKey E c n w of
        (Inl e, w1) \<Rightarrow> (Fail (Wrapped ''error creating API key'' e), w1)
      | (Inr api, w1) \<Rightarrow>
          (case client_createAppKey E c n (Scopes role) w1 of
             (Inl e, w2) \<Rightarrow> (Fail (Wrapped ''error creating Application key'' e), w2)
           | (Inr app, w2) \<Rightarrow>
               (Return (Some
                  \<lparr>Data = [''api_key'' \<mapsto> VString api, ''app_key'' \<mapsto> VString app],
                   Secret = Some
                     \<lparr>InternalData = [''api_key'' \<mapsto> VString api, ''app_key'' \<mapsto> VString app,
                                      ''key_type'' \<mapsto> VString ''both''],
                      LeaseOptions = \<lparr>lease_TTL = seconds (TTL role),
                                      lease_MaxTTL = seconds (MaxTTL role),
                                      Renewable = True\<rparr>\<rparr>\<rparr>), w2)))"
  using assms by (simp add: create_keys_def split: prod.splits sum.splits)

lemma create_keys_api_fails:
  assumes "KeyType role = ''api_key'' \<or> KeyType role = ''both''"
    and "client_createAPIKey E c n w = (Inl e, w1)"
  shows "create_keys E c role n w = (Fail (Wrapped ''error creating API key'' e), w1)"
  using assms by (auto simp: create_keys_def)

lemma create_keys_frame:
  assumes "create_keys E c role n w = (r, w')"
  shows "store w' = store w \<and> sops w' = sops w \<and>
     (\<exists>cs. calls w' = calls w @ cs \<and>
        (KeyType role = ''api_key'' \<longrightarrow> cs = [CreateAPIKey n]) \<and>
        (KeyType role = ''app_key'' \<longrightarrow> cs = [CreateAppKey n (Scopes role)]))"
  using assms
  by (auto simp: create_keys_def split: prod.splits sum.splits if_splits
      dest!: client_createAPIKey_frame client_createAppKey_frame)

lemma ensureClient_unconfigured:
  assumes "client b = None" "store w ''config'' = None" "storage_fault E (sops w) (SGet ''config'') = None"
  shows "ensureClient E b w =
     (Inl (Return (Some (ErrorResponse ''datadog backend not configured''))), b,
      w\<lparr>sops := sops w @ [SGet ''config'']\<rparr>)"
  using assms by (simp add: ensureClient_def getConfig_def storage_Get_def Let_def)

text \<open>
  C2. An issuance against a role whose key type is \<open>both\<close> that succeeds (it returns a
  response with a secret) has called \<open>createAPIKey\<close> and then \<open>createAppKey\<close>, both with
  the effective key name, and nothing else; the response holds the two values these calls
  returned; the lease has \<open>Renewable\<close> set and its TTL and MaxTTL are
  \<^verbatim>\<open>time.Duration(role.TTL) * time.Second\<close> and the same of \<open>MaxTTL\<close>: exactly that many
  seconds, in nanoseconds, for every number of seconds a \<^verbatim>\<open>time.Duration\<close> can hold
  (at most 9223372036 in absolute value).
\<close>

theorem issue_both_creates_api_then_app:
  assumes rn: "as_string (Get E pathKeys_Fields d ''role'') = Some roleName"
    and role: "getRole E roleName w = (Inr (Some role), w1)"
    and both: "KeyType role = ''both''"
    and run: "pathKeysRead E now b d w = (Return (Some resp), b', w')"
    and ok: "Secret resp = Some sec"
  shows "\<exists>c w2 w3 n api app.
       ensureClient E b w1 = (Inr c, b', w2)
     \<and> as_string (Get E pathKeys_Fields d ''name'') = Some n
     \<and> client_createAPIKey E c (key_name n roleName now) w2 = (Inr api, w3)
     \<and> client_createAppKey E c (key_name n roleName now) (Scopes role) w3 = (Inr app, w')
     \<and> calls w' = calls w @ [CreateAPIKey (key_name n roleName now),
                              CreateAppKey (key_name n roleName now) (Scopes role)]
     \<and> Data resp = [''api_key'' \<mapsto> VString api, ''app_key'' \<mapsto> VString app]
     \<and> InternalData sec = [''api_key'' \<mapsto> VString api, ''app_key'' \<mapsto> VString app,
                            ''key_type'' \<mapsto> VString ''both'']
     \<and> lease_TTL (LeaseOptions sec) = seconds (TTL role)
     \<and> lease_MaxTTL (LeaseOptions sec) = seconds (MaxTTL role)
     \<and> Renewable (LeaseOptions sec)
     \<and> (- 9223372036 \<le> TTL role \<and> TTL role \<le> 9223372036 \<longrightarrow>
          sint (lease_TTL (LeaseOptions sec)) = TTL role * 1000000000)
     \<and> (- 9223372036 \<le> MaxTTL role \<and> MaxTTL role \<le> 9223372036 \<longrightarrow>
          sint (lease_MaxTTL (LeaseOptions sec)) = MaxTTL role * 1000000000)"
proof -
  have ne: "roleName \<noteq> []"
  proof
    assume "roleName = []"
    with rn run have "resp = ErrorResponse ''missing role name''"
      by (simp add: pathKeysRead_def)
    with ok show False by (simp add: ErrorResponse_def)
  qed
  note unfolded = pathKeysRead_found [OF rn ne role, where now = now and b = b]
  obtain x b2 w2 where ec: "ensureClient E b w1 = (x, b2, w2)"
    by (cases "ensureClient E b w1") auto
  have "\<exists>c. x = Inr c"
  proof (cases x)
    case (Inl r0)
    with ec unfolded run have "r0 = Return (Some resp)" by simp
    with ec Inl have "resp = ErrorResponse ''datadog backend not configured''"
      by (auto dest: ensureClient_Inl)
    with ok show ?thesis by (simp add: ErrorResponse_def)
  qed simp
  then obtain c where x: "x = Inr c" ..
  obtain n where n: "as_string (Get E pathKeys_Fields d ''name'') = Some n"
    using unfolded run ec x by (cases "as_string (Get E pathKeys_Fields d ''name'')") auto
  let ?k = "key_name n roleName now"
  from unfolded run ec x n have ck: "create_keys E c role ?k w2 = (Return (Some resp), w')"
    and b': "b' = b2"
    by (auto split: prod.splits)
  obtain y w3 where a: "client_createAPIKey E c ?k w2 = (y, w3)"
    by (cases "client_createAPIKey E c ?k w2")
  from ck a both obtain api where y: "y = Inr api"
    by (cases y) (auto simp: create_keys_both)
  obtain z w4 where p: "client_createAppKey E c ?k (Scopes role) w3 = (z, w4)"
    by (cases "client_createAppKey E c ?k (Scopes role) w3")
  from ck a y p both obtain app where z: "z = Inr app"
    by (cases z) (auto simp: create_keys_both)
  from ck a y p z both have w4: "w4 = w'"
    and resp: "resp = \<lparr>Data = [''api_key'' \<mapsto> VString api, ''app_key'' \<mapsto> VString app],
                   Secret = Some
                     \<lparr>InternalData = [''api_key'' \<mapsto> VString api, ''app_key'' \<mapsto> VString app,
                                      ''key_type'' \<mapsto> VString ''both''],
                      LeaseOptions = \<lparr>lease_TTL = seconds (TTL role),
                                      lease_MaxTTL = seconds (MaxTTL role),
                                      Renewable = True\<rparr>\<rparr>\<rparr>"
    by (simp_all add: create_keys_both)
  from resp ok have sec: "sec = \<lparr>InternalData = [''api_key'' \<mapsto> VString api, ''app_key'' \<mapsto> VString app,
                                      ''key_type'' \<mapsto> VString ''both''],
                      LeaseOptions = \<lparr>lease_TTL = seconds (TTL role),
                                      lease_MaxTTL = seconds (MaxTTL role),
                                      Renewable = True\<rparr>\<rparr>"
    by simp
  have c1: "calls w1 = calls w" using getRole_frame [OF role] by simp
  have c2: "calls w2 = calls w1" using ensureClient_frame [OF ec] by simp
  have c3: "calls w3 = calls w2 @ [CreateAPIKey ?k]"
    using client_createAPIKey_frame [OF a] by simp
  have c4: "calls w4 = calls w3 @ [CreateAppKey ?k (Scopes role)]"
    using client_createAppKey_frame [OF p] by simp
  have tr: "calls w' = calls w @ [CreateAPIKey ?k, CreateAppKey ?k (Scopes role)]"
    using c1 c2 c3 c4 w4 by simp
  have "ensureClient E b w1 = (Inr c, b', w2)" using ec x b' by simp
  moreover have "client_createAPIKey E c ?k w2 = (Inr api, w3)" using a y by simp
  moreover have "client_createAppKey E c ?k (Scopes role) w3 = (Inr app, w')" using p z w4 by simp
  moreover have "Data resp = [''api_key'' \<mapsto> VString api, ''app_key'' \<mapsto> VString app]"
    using resp by simp
  moreover have "lease_TTL (LeaseOptions sec) = seconds (TTL role)"
    "lease_MaxTTL (LeaseOptions sec) = seconds (MaxTTL role)" "Renewable (LeaseOptions sec)"
    using sec by simp_all
  moreover have "- 9223372036 \<le> TTL role \<and> TTL role \<le> 9223372036 \<longrightarrow>
          sint (lease_TTL (LeaseOptions sec)) = TTL role * 1000000000"
    using sec by (simp add: seconds_exact)
  moreover have "- 9223372036 \<le> MaxTTL role \<and> MaxTTL role \<le> 9223372036 \<longrightarrow>
          sint (lease_MaxTTL (LeaseOptions sec)) = MaxTTL role * 1000000000"
    using sec by (simp add: seconds_exact)
  moreover have "InternalData sec = [''api_key'' \<mapsto> VString api, ''app_key'' \<mapsto> VString app,
                            ''key_type'' \<mapsto> VString ''both'']"
    using sec by simp
  ultimately show ?thesis using n tr by blast
qed

lemma test_role_field: "as_string (Get entries_env pathKeys_Fields test_data ''role'') = Some ''test-role''"
  by (simp add: Get_def pathKeys_Fields_def test_data_def)

lemma test_name_field: "as_string (Get entries_env pathKeys_Fields test_data ''name'') = Some ''test-keys''"
  by (simp add: Get_def pathKeys_Fields_def test_data_def)

lemma test_getRole:
  "getRole entries_env ''test-role'' role_world
     = (Inr (Some both_role), role_world\<lparr>sops := [SGet ''role/test-role'']\<rparr>)"
  by (simp add: getRole_def storage_Get_def entries_env_def test_env_def role_world_def
      empty_world_def Let_def)

theorem issue_both_creates_api_then_app_witness:
  "as_string (Get entries_env pathKeys_Fields test_data ''role'') = Some ''test-role''
   \<and> getRole entries_env ''test-role'' role_world
       = (Inr (Some both_role), role_world\<lparr>sops := [SGet ''role/test-role'']\<rparr>)
   \<and> KeyType both_role = ''both''
   \<and> (\<exists>resp sec w'. pathKeysRead entries_env 0 test_backend test_data role_world
         = (Return (Some resp), test_backend, w')
       \<and> Secret resp = Some sec
       \<and> calls w' = [CreateAPIKey ''test-keys'', CreateAppKey ''test-keys'' [''logs_read'']]
       \<and> Data resp ''api_key'' = Some (VString ''test-api-key'')
       \<and> Data resp ''app_key'' = Some (VString ''test-app-key'')
       \<and> sint (lease_TTL (LeaseOptions sec)) = 3600 * 1000000000
       \<and> sint (lease_MaxTTL (LeaseOptions sec)) = 86400 * 1000000000
       \<and> Renewable (LeaseOptions sec))"
proof -
  let ?w = "role_world\<lparr>sops := [SGet ''role/test-role''],
              calls := [CreateAPIKey ''test-keys'', CreateAppKey ''test-keys'' [''logs_read'']]\<rparr>"
  let ?sec = "\<lparr>InternalData = [''api_key'' \<mapsto> VString ''test-api-key'',
                                 ''app_key'' \<mapsto> VString ''test-app-key'',
                                 ''key_type'' \<mapsto> VString ''both''],
               LeaseOptions = \<lparr>lease_TTL = seconds 3600, lease_MaxTTL = seconds 86400,
                               Renewable = True\<rparr>\<rparr>"
  let ?resp = "\<lparr>Data = [''api_key'' \<mapsto> VString ''test-api-key'',
                          ''app_key'' \<mapsto> VString ''test-app-key''],
                Secret = Some ?sec\<rparr>"
  have b: "KeyType both_role = ''both''" by (simp add: both_role_def)
  have a1: "client_createAPIKey entries_env (Mock test_mock) ''test-keys''
              (role_world\<lparr>sops := [SGet ''role/test-role'']\<rparr>)
            = (Inr ''test-api-key'', role_world\<lparr>sops := [SGet ''role/test-role''],
                 calls := [CreateAPIKey ''test-keys'']\<rparr>)"
    by (simp add: client_createAPIKey_def test_mock_def role_world_def empty_world_def Let_def)
  have a2: "client_createAppKey entries_env (Mock test_mock) ''test-keys'' (Scopes both_role)
              (role_world\<lparr>sops := [SGet ''role/test-role''], calls := [CreateAPIKey ''test-keys'']\<rparr>)
            = (Inr ''test-app-key'', ?w)"
    by (simp add: client_createAppKey_def test_mock_def role_world_def empty_world_def Let_def
        both_role_def)
  have ck: "create_keys entries_env (Mock test_mock) both_role ''test-keys''
              (role_world\<lparr>sops := [SGet ''role/test-role'']\<rparr>) = (Return (Some ?resp), ?w)"
    by (simp add: create_keys_both [OF b] a1 a2) (simp add: both_role_def)
  have run: "pathKeysRead entries_env 0 test_backend test_data role_world
               = (Return (Some ?resp), test_backend, ?w)"
    by (simp add: pathKeysRead_found [OF test_role_field _ test_getRole] test_name_field
        ensureClient_def test_backend_def key_name_def ck)
  have s: "Secret ?resp = Some ?sec" by simp
  from issue_both_creates_api_then_app [OF test_role_field test_getRole b run s]
  have
    "calls ?w = calls role_world @ [CreateAPIKey (key_name ''test-keys'' ''test-role'' 0),
        CreateAppKey (key_name ''test-keys'' ''test-role'' 0) (Scopes both_role)]"
    "sint (lease_TTL (LeaseOptions ?sec)) = TTL both_role * 1000000000"
    "sint (lease_MaxTTL (LeaseOptions ?sec)) = MaxTTL both_role * 1000000000"
    "Renewable (LeaseOptions ?sec)"
    by (auto simp: test_name_field both_role_def)
  then have "calls ?w = [CreateAPIKey ''test-keys'', CreateAppKey ''test-keys'' [''logs_read'']]
     \<and> Data ?resp ''api_key'' = Some (VString ''test-api-key'')
     \<and> Data ?resp ''app_key'' = Some (VString ''test-app-key'')
     \<and> sint (lease_TTL (LeaseOptions ?sec)) = 3600 * 1000000000
     \<and> sint (lease_MaxTTL (LeaseOptions ?sec)) = 86400 * 1000000000
     \<and> Renewable (LeaseOptions ?sec)"
    by (simp add: both_role_def role_world_def empty_world_def key_name_def)
  with run s test_role_field test_getRole b show ?thesis by blast
qed

text \<open>
  C3. An issuance that reaches the provider for a role of key type \<open>api_key\<close> or \<open>both\<close>,
  and whose \<open>createAPIKey\<close> call returns the error \<open>e\<close>, returns the error
  \<open>error creating API key: e\<close>; the \<open>createAPIKey\<close> call is the only provider call of
  the request: no \<open>createAppKey\<close>, no deletion.
\<close>

theorem api_failure_aborts_issue:
  assumes rn: "as_string (Get E pathKeys_Fields d ''role'') = Some roleName"
    and ne: "roleName \<noteq> []"
    and role: "getRole E roleName w = (Inr (Some role), w1)"
    and kt: "KeyType role = ''api_key'' \<or> KeyType role = ''both''"
    and cl: "ensureClient E b w1 = (Inr c, b2, w2)"
    and nm: "as_string (Get E pathKeys_Fields d ''name'') = Some n"
    and err: "client_createAPIKey E c (key_name n roleName now) w2 = (Inl e, w3)"
  shows "pathKeysRead E now b d w = (Fail (Wrapped ''error creating API key'' e), b2, w3)
       \<and> calls w3 = calls w @ [CreateAPIKey (key_name n roleName now)]"
proof -
  have "pathKeysRead E now b d w = (Fail (Wrapped ''error creating API key'' e), b2, w3)"
    by (simp add: pathKeysRead_found [OF rn ne role] cl nm create_keys_api_fails [OF kt err])
  moreover have "calls w1 = calls w" using getRole_frame [OF role] by simp
  moreover have "calls w2 = calls w1" using ensureClient_frame [OF cl] by simp
  moreover have "calls w3 = calls w2 @ [CreateAPIKey (key_name n roleName now)]"
    using client_createAPIKey_frame [OF err] by simp
  ultimately show ?thesis by simp
qed

theorem api_failure_aborts_issue_witness:
  "pathKeysRead entries_env 0 \<lparr>client = Some (Mock failing_mock)\<rparr> test_data role_world
     = (Fail (Wrapped ''error creating API key'' (Error ''datadog API request failed with status 403'')),
        \<lparr>client = Some (Mock failing_mock)\<rparr>,
        role_world\<lparr>sops := [SGet ''role/test-role''], calls := [CreateAPIKey ''test-keys'']\<rparr>)
   \<and> message (Wrapped ''error creating API key'' (Error ''datadog API request failed with status 403''))
       = ''error creating API key: datadog API request failed with status 403''"
proof -
  let ?b = "\<lparr>client = Some (Mock failing_mock)\<rparr>"
  let ?w1 = "role_world\<lparr>sops := [SGet ''role/test-role'']\<rparr>"
  have ne: "''test-role'' \<noteq> []" by simp
  have kt: "KeyType both_role = ''api_key'' \<or> KeyType both_role = ''both''"
    by (simp add: both_role_def)
  have cl: "ensureClient entries_env ?b ?w1 = (Inr (Mock failing_mock), ?b, ?w1)"
    by (simp add: ensureClient_def)
  have err: "client_createAPIKey entries_env (Mock failing_mock) (key_name ''test-keys'' ''test-role'' 0) ?w1
       = (Inl (Error ''datadog API request failed with status 403''),
          role_world\<lparr>sops := [SGet ''role/test-role''], calls := [CreateAPIKey ''test-keys'']\<rparr>)"
    by (simp add: client_createAPIKey_def failing_mock_def test_mock_def key_name_def
        role_world_def empty_world_def Let_def)
  from api_failure_aborts_issue [OF test_role_field ne test_getRole kt cl test_name_field err]
  show ?thesis by simp
qed

text \<open>
  C8. Whatever an issuance does, for a role of key type \<open>api_key\<close> none of its provider
  calls is a \<open>createAppKey\<close>, and for a role of key type \<open>app_key\<close> none is a
  \<open>createAPIKey\<close>.
\<close>

theorem single_key_roles_call_one_creator:
  assumes rn: "as_string (Get E pathKeys_Fields d ''role'') = Some roleName"
    and role: "getRole E roleName w = (Inr (Some role), w1)"
    and run: "pathKeysRead E now b d w = (r, b', w')"
  shows "\<exists>cs. calls w' = calls w @ cs
       \<and> (KeyType role = ''api_key'' \<longrightarrow> (\<forall>n sc. CreateAppKey n sc \<notin> set cs))
       \<and> (KeyType role = ''app_key'' \<longrightarrow> (\<forall>n. CreateAPIKey n \<notin> set cs))"
proof (cases "roleName = []")
  case True
  with rn run have "w' = w" by (simp add: pathKeysRead_def)
  then have "calls w' = calls w @ []" by simp
  then show ?thesis by (intro exI [of _ "[]"]) simp
next
  case False
  note unfolded = pathKeysRead_found [OF rn False role, where now = now and b = b]
  have c1: "calls w1 = calls w" using getRole_frame [OF role] by simp
  obtain x b2 w2 where ec: "ensureClient E b w1 = (x, b2, w2)"
    by (cases "ensureClient E b w1") auto
  have c2: "calls w2 = calls w1" using ensureClient_frame [OF ec] by simp
  show ?thesis
  proof (cases x)
    case (Inl r0)
    with unfolded run ec have "w' = w2" by simp
    with c1 c2 have "calls w' = calls w @ []" by simp
    then show ?thesis by (intro exI [of _ "[]"]) simp
  next
    case (Inr c)
    show ?thesis
    proof (cases "as_string (Get E pathKeys_Fields d ''name'')")
      case None
      with unfolded run ec Inr have "w' = w2" by simp
      with c1 c2 have "calls w' = calls w @ []" by simp
      then show ?thesis by (intro exI [of _ "[]"]) simp
    next
      case (Some n)
      with unfolded run ec Inr obtain r' where
        "create_keys E c role (key_name n roleName now) w2 = (r', w')"
        by (auto split: prod.splits)
      from create_keys_frame [OF this] obtain cs where
        "calls w' = calls w2 @ cs"
        "KeyType role = ''api_key'' \<longrightarrow> cs = [CreateAPIKey (key_name n roleName now)]"
        "KeyType role = ''app_key'' \<longrightarrow> cs = [CreateAppKey (key_name n roleName now) (Scopes role)]"
        by blast
      with c1 c2 show ?thesis by (intro exI [of _ cs]) auto
    qed
  qed
qed

lemma api_only_getRole:
  "getRole entries_env ''api-only'' role_world
     = (Inr (Some api_role), role_world\<lparr>sops := [SGet ''role/api-only'']\<rparr>)"
  by (simp add: getRole_def storage_Get_def entries_env_def test_env_def role_world_def
      empty_world_def Let_def)

theorem single_key_roles_call_one_creator_witness:
  "as_string (Get entries_env pathKeys_Fields api_only_data ''role'') = Some ''api-only''
   \<and> KeyType api_role = ''api_key''
   \<and> calls (snd (snd (pathKeysRead entries_env 0 test_backend api_only_data role_world)))
       = [CreateAPIKey ''test-keys'']
   \<and> (\<forall>n sc. CreateAppKey n sc \<notin>
         set (calls (snd (snd (pathKeysRead entries_env 0 test_backend api_only_data role_world)))))"
proof -
  let ?w = "role_world\<lparr>sops := [SGet ''role/api-only''], calls := [CreateAPIKey ''test-keys'']\<rparr>"
  have rn: "as_string (Get entries_env pathKeys_Fields api_only_data ''role'') = Some ''api-only''"
    by (simp add: Get_def pathKeys_Fields_def api_only_data_def)
  have nm: "as_string (Get entries_env pathKeys_Fields api_only_data ''name'') = Some ''test-keys''"
    by (simp add: Get_def pathKeys_Fields_def api_only_data_def)
  have kt: "KeyType api_role = ''api_key''" by (simp add: api_role_def)
  have a1: "client_createAPIKey entries_env (Mock test_mock) ''test-keys''
              (role_world\<lparr>sops := [SGet ''role/api-only'']\<rparr>) = (Inr ''test-api-key'', ?w)"
    by (simp add: client_createAPIKey_def test_mock_def role_world_def empty_world_def Let_def)
  have "\<exists>r. create_keys entries_env (Mock test_mock) api_role ''test-keys''
              (role_world\<lparr>sops := [SGet ''role/api-only'']\<rparr>) = (r, ?w)"
    by (simp add: create_keys_def kt a1)
  then obtain r where run: "pathKeysRead entries_env 0 test_backend api_only_data role_world
               = (r, test_backend, ?w)"
    by (auto simp: pathKeysRead_found [OF rn _ api_only_getRole] nm
        ensureClient_def test_backend_def key_name_def)
  from single_key_roles_call_one_creator [OF rn api_only_getRole run] kt
  obtain cs where "calls ?w = calls role_world @ cs" "\<forall>n sc. CreateAppKey n sc \<notin> set cs"
    by blast
  then have "\<forall>n sc. CreateAppKey n sc \<notin> set (calls ?w)"
    by (simp add: role_world_def empty_world_def)
  with rn kt run show ?thesis by simp
qed

text \<open>
  C9. An issuance with an empty role name returns the error response
  \<open>missing role name\<close> and touches nothing. An issuance with a non-empty role name for
  which storage holds no role returns the error response \<open>role '<name>' not found\<close>, as
  a response and not as a Go error; the read of the role is the only thing it did: the
  backend is unchanged, the configuration was not looked up and no provider call was made.
\<close>

theorem issue_rejects_missing_and_unknown_role:
  "(as_string (Get E pathKeys_Fields d ''role'') = Some [] \<longrightarrow>
      pathKeysRead E now b d w = (Return (Some (ErrorResponse ''missing role name'')), b, w))
   \<and> (as_string (Get E pathKeys_Fields d ''role'') = Some roleName \<and> roleName \<noteq> []
        \<and> store w (''role/'' @ roleName) = None
        \<and> storage_fault E (sops w) (SGet (''role/'' @ roleName)) = None \<longrightarrow>
      pathKeysRead E now b d w
        = (Return (Some (ErrorResponse (''role '' @ quoted roleName @ '' not found''))), b,
           w\<lparr>sops := sops w @ [SGet (''role/'' @ roleName)]\<rparr>))"
  by (simp add: pathKeysRead_def getRole_def storage_Get_def Let_def)

theorem issue_rejects_missing_and_unknown_role_witness:
  "pathKeysRead entries_env 0 fresh_backend [''role'' \<mapsto> VString []] role_world
     = (Return (Some (ErrorResponse ''missing role name'')), fresh_backend, role_world)
   \<and> pathKeysRead entries_env 0 fresh_backend unknown_role_data role_world
     = (Return (Some (ErrorResponse (''role '' @ quoted ''nobody'' @ '' not found''))), fresh_backend,
        role_world\<lparr>sops := [SGet ''role/nobody'']\<rparr>)"
proof -
  have e: "as_string (Get entries_env pathKeys_Fields [''role'' \<mapsto> VString []] ''role'') = Some []"
    by (simp add: Get_def pathKeys_Fields_def)
  have u: "as_string (Get entries_env pathKeys_Fields unknown_role_data ''role'') = Some ''nobody''
      \<and> ''nobody'' \<noteq> [] \<and> store role_world (''role/'' @ ''nobody'') = None
      \<and> storage_fault entries_env (sops role_world) (SGet (''role/'' @ ''nobody'')) = None"
    by (simp add: Get_def pathKeys_Fields_def unknown_role_data_def role_world_def
        empty_world_def entries_env_def test_env_def)
  from issue_rejects_missing_and_unknown_role
         [where d = "[''role'' \<mapsto> VString []]" and E = entries_env and now = 0
            and b = fresh_backend and w = role_world and roleName = "[]"] e
  have 1: "pathKeysRead entries_env 0 fresh_backend [''role'' \<mapsto> VString []] role_world
     = (Return (Some (ErrorResponse ''missing role name'')), fresh_backend, role_world)"
    by blast
  from issue_rejects_missing_and_unknown_role
         [where d = unknown_role_data and E = entries_env and now = 0
            and b = fresh_backend and w = role_world and roleName = "''nobody''"] u
  have 2: "pathKeysRead entries_env 0 fresh_backend unknown_role_data role_world
     = (Return (Some (ErrorResponse (''role '' @ quoted ''nobody'' @ '' not found''))), fresh_backend,
        role_world\<lparr>sops := sops role_world @ [SGet (''role/'' @ ''nobody'')]\<rparr>)"
    by blast
  from 1 2 show ?thesis by (simp add: role_world_def empty_world_def)
qed

text \<open>
  C4. With no client cached and no \<open>config\<close> entry in storage (and storage answering
  the read of \<open>config\<close>), an issuance makes no provider call, calls
  \<^verbatim>\<open>http.Client.Do\<close> not once and puts nothing on the wire,
  caches no client, and never returns success; once the role is loaded, what it returns is
  the error response \<open>datadog backend not configured\<close>.
\<close>

theorem unconfigured_issue_makes_no_provider_call:
  assumes nc: "client b = None"
    and nocfg: "store w ''config'' = None"
    and nofault: "\<forall>h. storage_fault E h (SGet ''config'') = None"
    and run: "pathKeysRead E now b d w = (r, b', w')"
  shows "calls w' = calls w \<and> do_log w' = do_log w \<and> wire_log w' = wire_log w \<and> client b' = None
       \<and> r \<noteq> Return None
       \<and> (\<forall>resp. r = Return (Some resp) \<longrightarrow> Secret resp = None \<and> (\<exists>m. resp = ErrorResponse m))
       \<and> (\<forall>roleName role w1.
             as_string (Get E pathKeys_Fields d ''role'') = Some roleName \<and> roleName \<noteq> []
             \<and> getRole E roleName w = (Inr (Some role), w1) \<longrightarrow>
             r = Return (Some (ErrorResponse ''datadog backend not configured'')))"
proof (cases "as_string (Get E pathKeys_Fields d ''role'')")
  case None
  with run show ?thesis using nc by (auto simp: pathKeysRead_def)
next
  case (Some roleName)
  show ?thesis
  proof (cases "roleName = []")
    case True
    with Some run nc show ?thesis by (auto simp: pathKeysRead_def ErrorResponse_def)
  next
    case False
    obtain g w1 where gr: "getRole E roleName w = (g, w1)" by (cases "getRole E roleName w")
    note f = getRole_frame [OF gr]
    show ?thesis
    proof (cases g)
      case (Inl e)
      with Some False gr run nc f show ?thesis by (auto simp: pathKeysRead_def)
    next
      case (Inr ro)
      show ?thesis
      proof (cases ro)
        case None
        with Inr Some False gr run nc f show ?thesis
          by (auto simp: pathKeysRead_def ErrorResponse_def)
      next
        case (Some role)
        have "client b = None" by (rule nc)
        moreover have "store w1 ''config'' = None" using f nocfg by simp
        moreover have "storage_fault E (sops w1) (SGet ''config'') = None" using nofault by simp
        ultimately have ec: "ensureClient E b w1 =
           (Inl (Return (Some (ErrorResponse ''datadog backend not configured''))), b,
            w1\<lparr>sops := sops w1 @ [SGet ''config'']\<rparr>)"
          by (rule ensureClient_unconfigured)
        from pathKeysRead_found [OF \<open>as_string (Get E pathKeys_Fields d ''role'') = Some roleName\<close> False, where w = w and role = role and ?w1.0 = w1 and now = now and b = b]
          gr Inr Some ec run
        have "r = Return (Some (ErrorResponse ''datadog backend not configured''))"
          "b' = b" "w' = w1\<lparr>sops := sops w1 @ [SGet ''config'']\<rparr>"
          by simp_all
        with f nc show ?thesis by (auto simp: ErrorResponse_def)
      qed
    qed
  qed
qed

theorem unconfigured_issue_makes_no_provider_call_witness:
  "client fresh_backend = None \<and> store role_world ''config'' = None
   \<and> (\<forall>h. storage_fault entries_env h (SGet ''config'') = None)
   \<and> pathKeysRead entries_env 0 fresh_backend test_data role_world
       = (Return (Some (ErrorResponse ''datadog backend not configured'')), fresh_backend,
          role_world\<lparr>sops := [SGet ''role/test-role'', SGet ''config'']\<rparr>)
   \<and> calls (role_world\<lparr>sops := [SGet ''role/test-role'', SGet ''config'']\<rparr>) = []
   \<and> do_log (role_world\<lparr>sops := [SGet ''role/test-role'', SGet ''config'']\<rparr>) = []
   \<and> wire_log (role_world\<lparr>sops := [SGet ''role/test-role'', SGet ''config'']\<rparr>) = []"
proof -
  let ?w = "role_world\<lparr>sops := [SGet ''role/test-role'', SGet ''config'']\<rparr>"
  have nc: "client fresh_backend = None" by (simp add: fresh_backend_def)
  have nocfg: "store role_world ''config'' = None" by (simp add: role_world_def empty_world_def)
  have nofault: "\<forall>h. storage_fault entries_env h (SGet ''config'') = None"
    by (simp add: entries_env_def test_env_def)
  have ec: "ensureClient entries_env fresh_backend (role_world\<lparr>sops := [SGet ''role/test-role'']\<rparr>)
      = (Inl (Return (Some (ErrorResponse ''datadog backend not configured''))), fresh_backend, ?w)"
    using ensureClient_unconfigured [of fresh_backend "role_world\<lparr>sops := [SGet ''role/test-role'']\<rparr>" entries_env]
    by (simp add: fresh_backend_def role_world_def empty_world_def entries_env_def test_env_def)
  have run: "pathKeysRead entries_env 0 fresh_backend test_data role_world
       = (Return (Some (ErrorResponse ''datadog backend not configured'')), fresh_backend, ?w)"
    by (simp add: pathKeysRead_found [OF test_role_field _ test_getRole] ec)
  from unconfigured_issue_makes_no_provider_call [OF nc nocfg nofault run]
  have "calls ?w = calls role_world \<and> do_log ?w = do_log role_world
      \<and> wire_log ?w = wire_log role_world" by simp
  then have "calls ?w = [] \<and> do_log ?w = [] \<and> wire_log ?w = []"
    by (simp add: role_world_def empty_world_def)
  with nc nocfg nofault run show ?thesis by blast
qed

text \<open>
  C5. A role write whose key type is none of \<open>api_key\<close>, \<open>app_key\<close>, \<open>both\<close>, or whose
  \<open>ttl\<close> exceeds its \<open>max_ttl\<close>, is answered with an error response and leaves the world
  as it was: no storage operation is made. The handler checks in the order of the
  validator (name, key type, TTL): with a role name, an invalid key type gives the
  invalid-key-type message, and a valid key type with \<open>ttl > max_ttl\<close> gives
  \<open>ttl cannot be greater than max_ttl\<close>.
\<close>

theorem role_write_rejections_write_nothing:
  assumes nm: "as_string (Get E pathRoles_Fields d ''name'') = Some name"
    and kt: "as_string (Get E pathRoles_Fields d ''key_type'') = Some kt"
    and sc: "as_strings (Get E pathRoles_Fields d ''scopes'') = Some sc"
    and t: "as_int (Get E pathRoles_Fields d ''ttl'') = Some t"
    and mt: "as_int (Get E pathRoles_Fields d ''max_ttl'') = Some mt"
  shows "(\<not> valid_key_type kt \<or> t > mt \<longrightarrow>
            snd (pathRoleWrite E d w) = w
          \<and> (\<exists>m. fst (pathRoleWrite E d w) = Return (Some (ErrorResponse m))))
       \<and> (name \<noteq> [] \<and> \<not> valid_key_type kt \<longrightarrow>
            pathRoleWrite E d w = (Return (Some (ErrorResponse invalid_key_type_msg)), w))
       \<and> (name \<noteq> [] \<and> valid_key_type kt \<and> t > mt \<longrightarrow>
            pathRoleWrite E d w
              = (Return (Some (ErrorResponse ''ttl cannot be greater than max_ttl'')), w))"
  using assms by (auto simp: pathRoleWrite_def Let_def)

theorem role_write_rejections_write_nothing_witness:
  "pathRoleWrite test_env bogus_type_data empty_world
     = (Return (Some (ErrorResponse invalid_key_type_msg)), empty_world)
   \<and> pathRoleWrite test_env long_ttl_data empty_world
     = (Return (Some (ErrorResponse ''ttl cannot be greater than max_ttl'')), empty_world)"
proof -
  have b: "as_string (Get test_env pathRoles_Fields bogus_type_data ''name'') = Some ''test-role''"
    "as_string (Get test_env pathRoles_Fields bogus_type_data ''key_type'') = Some ''password''"
    "as_strings (Get test_env pathRoles_Fields bogus_type_data ''scopes'') = Some []"
    "as_int (Get test_env pathRoles_Fields bogus_type_data ''ttl'') = Some 3600"
    "as_int (Get test_env pathRoles_Fields bogus_type_data ''max_ttl'') = Some 86400"
    by (simp_all add: Get_def pathRoles_Fields_def bogus_type_data_def DefaultOrZero_def)
  have l: "as_string (Get test_env pathRoles_Fields long_ttl_data ''name'') = Some ''test-role''"
    "as_string (Get test_env pathRoles_Fields long_ttl_data ''key_type'') = Some ''both''"
    "as_strings (Get test_env pathRoles_Fields long_ttl_data ''scopes'') = Some []"
    "as_int (Get test_env pathRoles_Fields long_ttl_data ''ttl'') = Some 7200"
    "as_int (Get test_env pathRoles_Fields long_ttl_data ''max_ttl'') = Some 3600"
    by (simp_all add: Get_def pathRoles_Fields_def long_ttl_data_def DefaultOrZero_def)
  have v: "\<not> valid_key_type ''password''" "valid_key_type ''both''"
    by (simp_all add: valid_key_type_def)
  from role_write_rejections_write_nothing [OF b, where w = empty_world]
       role_write_rejections_write_nothing [OF l, where w = empty_world] v
  show ?thesis by simp
qed

lemma doRequest_cases:
  assumes "doRequest E c meth path payload w = (r, w')"
  shows "(w' = w \<and> (\<exists>e. r = Inl e)) \<or> (\<exists>bdy. send E (build_request c meth path bdy) w = (r, w'))"
  using assms by (auto simp: doRequest_def split: sum.splits option.splits)

lemma send_outcome:
  assumes "send E rq w = (r, w')"
  shows "do_log w' = do_log w @ [rq]
       \<and> wire_log w' = wire_log w @ snd (client_Do E (wire_log w) rq)
       \<and> (\<forall>e. fst (client_Do E (wire_log w) rq) = Inl e \<longrightarrow> r = Inl e)
       \<and> (\<forall>resp. fst (client_Do E (wire_log w) rq) = Inr resp \<and> 400 \<le> StatusCode resp \<longrightarrow>
             r = Inl (Error (''datadog API request failed with status '' @ show_int (StatusCode resp))))
       \<and> (\<forall>resp. fst (client_Do E (wire_log w) rq) = Inr resp \<and> StatusCode resp < 400 \<longrightarrow>
             r = Inr resp)"
  using assms by (auto simp: send_def Let_def split: prod.splits sum.splits if_splits)

lemma doRequest_outcome:
  assumes run: "doRequest E c meth path payload w = (r, w')"
  shows "((do_log w' = do_log w \<and> wire_log w' = wire_log w)
          \<or> (\<exists>rq. do_log w' = do_log w @ [rq]
                \<and> wire_log w' = wire_log w @ snd (client_Do E (wire_log w) rq)))
       \<and> (\<forall>rq e. do_log w' = do_log w @ [rq] \<and> fst (client_Do E (wire_log w) rq) = Inl e \<longrightarrow>
             r = Inl e)
       \<and> (\<forall>rq resp. do_log w' = do_log w @ [rq] \<and> fst (client_Do E (wire_log w) rq) = Inr resp
              \<and> 400 \<le> StatusCode resp \<longrightarrow>
             r = Inl (Error (''datadog API request failed with status '' @ show_int (StatusCode resp))))
       \<and> (\<forall>rq resp. do_log w' = do_log w @ [rq] \<and> fst (client_Do E (wire_log w) rq) = Inr resp
              \<and> StatusCode resp < 400 \<longrightarrow> r = Inr resp)"
proof -
  from doRequest_cases [OF run] show ?thesis
  proof
    assume "w' = w \<and> (\<exists>e. r = Inl e)"
    then show ?thesis by simp
  next
    assume "\<exists>bdy. send E (build_request c meth path bdy) w = (r, w')"
    then obtain bdy where "send E (build_request c meth path bdy) w = (r, w')" ..
    from send_outcome [OF this] show ?thesis by auto
  qed
qed

text \<open>
  C6, as the code has it. \<^verbatim>\<open>doRequest\<close> calls \<^verbatim>\<open>http.Client.Do\<close> at most once, and
  what it puts on the wire is what that one call sends (several requests when
  \<^verbatim>\<open>Do\<close> follows redirects). When it has called \<^verbatim>\<open>Do\<close>, the error of \<^verbatim>\<open>Do\<close> is
  returned as it is and a response with status 400 or more is returned as the error
  \<open>datadog API request failed with status <code>\<close>, while a response with a status
  below 400 is handed back as the result. Each of the four operations makes exactly the
  one \<^verbatim>\<open>doRequest\<close> call (its effect on the world is that of the call) and returns the
  error of that call: the client repeats nothing.
\<close>

theorem client_failures_surface_without_retry:
  "(doRequest E c meth path payload w = (r, w') \<longrightarrow>
      ((do_log w' = do_log w \<and> wire_log w' = wire_log w)
        \<or> (\<exists>rq. do_log w' = do_log w @ [rq]
              \<and> wire_log w' = wire_log w @ snd (client_Do E (wire_log w) rq)))
    \<and> (\<forall>rq e. do_log w' = do_log w @ [rq] \<and> fst (client_Do E (wire_log w) rq) = Inl e \<longrightarrow>
          r = Inl e)
    \<and> (\<forall>rq resp. do_log w' = do_log w @ [rq] \<and> fst (client_Do E (wire_log w) rq) = Inr resp
           \<and> 400 \<le> StatusCode resp \<longrightarrow>
          r = Inl (Error (''datadog API request failed with status '' @ show_int (StatusCode resp))))
    \<and> (\<forall>rq resp. do_log w' = do_log w @ [rq] \<and> fst (client_Do E (wire_log w) rq) = Inr resp
           \<and> StatusCode resp < 400 \<longrightarrow> r = Inr resp))
   \<and> (doRequest E c ''POST'' ''/api_key'' (Some [(''name'', VString n)]) w = (Inl e, w1) \<longrightarrow>
        createAPIKey E c n w = (Inl e, w1))
   \<and> (doRequest E c ''POST'' ''/application_key''
          (Some [(''name'', VString n), (''scopes'', VStrings sc)]) w = (Inl e, w1) \<longrightarrow>
        createAppKey E c n sc w = (Inl e, w1))
   \<and> (doRequest E c ''DELETE'' (''/api_key/'' @ k) None w = (Inl e, w1) \<longrightarrow>
        deleteAPIKey E c k w = (Some e, w1))
   \<and> (doRequest E c ''DELETE'' (''/application_key/'' @ k) None w = (Inl e, w1) \<longrightarrow>
        deleteAppKey E c k w = (Some e, w1))
   \<and> snd (createAPIKey E c n w) = snd (doRequest E c ''POST'' ''/api_key'' (Some [(''name'', VString n)]) w)
   \<and> snd (createAppKey E c n sc w)
       = snd (doRequest E c ''POST'' ''/application_key''
               (Some [(''name'', VString n), (''scopes'', VStrings sc)]) w)
   \<and> snd (deleteAPIKey E c k w) = snd (doRequest E c ''DELETE'' (''/api_key/'' @ k) None w)
   \<and> snd (deleteAppKey E c k w) = snd (doRequest E c ''DELETE'' (''/application_key/'' @ k) None w)"
proof -
  have 1: "doRequest E c meth path payload w = (r, w') \<longrightarrow>
      ((do_log w' = do_log w \<and> wire_log w' = wire_log w)
        \<or> (\<exists>rq. do_log w' = do_log w @ [rq]
              \<and> wire_log w' = wire_log w @ snd (client_Do E (wire_log w) rq)))
    \<and> (\<forall>rq e. do_log w' = do_log w @ [rq] \<and> fst (client_Do E (wire_log w) rq) = Inl e \<longrightarrow>
          r = Inl e)
    \<and> (\<forall>rq resp. do_log w' = do_log w @ [rq] \<and> fst (client_Do E (wire_log w) rq) = Inr resp
           \<and> 400 \<le> StatusCode resp \<longrightarrow>
          r = Inl (Error (''datadog API request failed with status '' @ show_int (StatusCode resp))))
    \<and> (\<forall>rq resp. do_log w' = do_log w @ [rq] \<and> fst (client_Do E (wire_log w) rq) = Inr resp
           \<and> StatusCode resp < 400 \<longrightarrow> r = Inr resp)"
    using doRequest_outcome by blast
  have 2: "doRequest E c ''POST'' ''/api_key'' (Some [(''name'', VString n)]) w = (Inl e, w1) \<longrightarrow>
        createAPIKey E c n w = (Inl e, w1)"
    by (simp add: createAPIKey_def)
  have 3: "doRequest E c ''POST'' ''/application_key''
          (Some [(''name'', VString n), (''scopes'', VStrings sc)]) w = (Inl e, w1) \<longrightarrow>
        createAppKey E c n sc w = (Inl e, w1)"
    by (simp add: createAppKey_def)
  have 4: "doRequest E c ''DELETE'' (''/api_key/'' @ k) None w = (Inl e, w1) \<longrightarrow>
        deleteAPIKey E c k w = (Some e, w1)"
    by (simp add: deleteAPIKey_def)
  have 5: "doRequest E c ''DELETE'' (''/application_key/'' @ k) None w = (Inl e, w1) \<longrightarrow>
        deleteAppKey E c k w = (Some e, w1)"
    by (simp add: deleteAppKey_def)
  have 6: "snd (createAPIKey E c n w) = snd (doRequest E c ''POST'' ''/api_key'' (Some [(''name'', VString n)]) w)"
    by (simp add: createAPIKey_def split: prod.splits sum.splits)
  have 7: "snd (createAppKey E c n sc w)
       = snd (doRequest E c ''POST'' ''/application_key''
               (Some [(''name'', VString n), (''scopes'', VStrings sc)]) w)"
    by (simp add: createAppKey_def split: prod.splits sum.splits)
  have 8: "snd (deleteAPIKey E c k w) = snd (doRequest E c ''DELETE'' (''/api_key/'' @ k) None w)"
    by (simp add: deleteAPIKey_def split: prod.splits sum.splits)
  have 9: "snd (deleteAppKey E c k w) = snd (doRequest E c ''DELETE'' (''/application_key/'' @ k) None w)"
    by (simp add: deleteAppKey_def split: prod.splits sum.splits)
  from 1 2 3 4 5 6 7 8 9 show ?thesis by (intro conjI)
qed

text \<open>
  C6, as stated, fails: a response with status 304 is not a 2xx response, and the
  deletions return no error on it. The error for a status of 400 or more carries the
  status code only: a failed \<open>createAPIKey\<close> and a failed \<open>deleteAppKey\<close> return the same
  error.
\<close>

theorem status_below_400_not_an_error:
  "StatusCode not_modified = 304
   \<and> fst (deleteAPIKey (answering not_modified) admin_client ''test-api-key'' empty_world) = None
   \<and> fst (deleteAppKey (answering not_modified) admin_client ''test-app-key'' empty_world) = None
   \<and> fst (createAPIKey (answering server_error) admin_client ''test-keys'' empty_world)
       = Inl (Error ''datadog API request failed with status 500'')
   \<and> fst (deleteAppKey (answering server_error) admin_client ''test-app-key'' empty_world)
       = Some (Error ''datadog API request failed with status 500'')"
  by (simp add: not_modified_def server_error_def answering_def admin_client_def test_env_def
      empty_world_def deleteAPIKey_def deleteAppKey_def createAPIKey_def doRequest_def send_def
      newDatadogClient_def build_request_def show_500 Let_def)

theorem client_failures_surface_without_retry_witness:
  "doRequest (redirected_to moved_request server_error) admin_client
       ''DELETE'' (''/api_key/'' @ ''test-api-key'') None empty_world
     = (Inl (Error ''datadog API request failed with status 500''),
        empty_world\<lparr>do_log := [build_request admin_client ''DELETE'' ''/api_key/test-api-key'' []],
                     wire_log := [build_request admin_client ''DELETE'' ''/api_key/test-api-key'' [],
                                  moved_request]\<rparr>)
   \<and> deleteAPIKey (redirected_to moved_request server_error) admin_client ''test-api-key'' empty_world
     = (Some (Error ''datadog API request failed with status 500''),
        empty_world\<lparr>do_log := [build_request admin_client ''DELETE'' ''/api_key/test-api-key'' []],
                     wire_log := [build_request admin_client ''DELETE'' ''/api_key/test-api-key'' [],
                                  moved_request]\<rparr>)"
proof -
  let ?w = "empty_world\<lparr>do_log := [build_request admin_client ''DELETE'' ''/api_key/test-api-key'' []],
                     wire_log := [build_request admin_client ''DELETE'' ''/api_key/test-api-key'' [],
                                  moved_request]\<rparr>"
  have run: "doRequest (redirected_to moved_request server_error) admin_client
       ''DELETE'' (''/api_key/'' @ ''test-api-key'') None empty_world
     = (Inl (Error ''datadog API request failed with status 500''), ?w)"
    by (simp add: server_error_def redirected_to_def test_env_def empty_world_def doRequest_def
        send_def show_500 Let_def)
  from client_failures_surface_without_retry
         [of "redirected_to moved_request server_error" admin_client "''DELETE''"
             "''/api_key/'' @ ''test-api-key''" None
             empty_world "Inl (Error ''datadog API request failed with status 500'')" ?w
             "''test-keys''" "Error ''datadog API request failed with status 500''" ?w "[]"
             "''test-api-key''"]
    run
  have "deleteAPIKey (redirected_to moved_request server_error) admin_client ''test-api-key'' empty_world
     = (Some (Error ''datadog API request failed with status 500''), ?w)"
    by blast
  with run show ?thesis by simp
qed

lemma show_1700000000: "show_int 1700000000 = ''1700000000''"
  by (simp add: show_int_def show_nat.simps digit_def)

text \<open>
  C7. The key name at work. A request without a \<open>name\<close> field gets the default of the
  schema of \<^verbatim>\<open>pathKeys\<close>, \<open>vault-generated\<close>, and that is the name both provider calls
  receive; the name made of the role and the time is used only for a request that supplies
  the empty string or \<^verbatim>\<open>nil\<close> as its name; a non-empty supplied name is used as it is.
\<close>

theorem omitted_name_is_schema_default:
  "Get entries_env pathKeys_Fields nameless_data ''name'' = Some (VString ''vault-generated'')
   \<and> calls (snd (snd (pathKeysRead entries_env 1700000000 test_backend nameless_data role_world)))
       = [CreateAPIKey ''vault-generated'', CreateAppKey ''vault-generated'' [''logs_read'']]
   \<and> calls (snd (snd (pathKeysRead entries_env 1700000000 test_backend empty_name_data role_world)))
       = [CreateAPIKey ''vault-test-role-1700000000'',
          CreateAppKey ''vault-test-role-1700000000'' [''logs_read'']]
   \<and> calls (snd (snd (pathKeysRead entries_env 1700000000 test_backend test_data role_world)))
       = [CreateAPIKey ''test-keys'', CreateAppKey ''test-keys'' [''logs_read'']]
   \<and> calls (snd (snd (pathKeysRead entries_env 1700000000 test_backend nil_name_data role_world)))
       = [CreateAPIKey ''vault-test-role-1700000000'',
          CreateAppKey ''vault-test-role-1700000000'' [''logs_read'']]"
proof -
  have ck: "calls (snd (create_keys entries_env (Mock test_mock) both_role n
                     (role_world\<lparr>sops := [SGet ''role/test-role'']\<rparr>)))
              = [CreateAPIKey n, CreateAppKey n [''logs_read'']]" for n
    by (simp add: create_keys_def client_createAPIKey_def client_createAppKey_def
        test_mock_def Let_def role_world_def empty_world_def both_role_def)
  have rn: "as_string (Get entries_env pathKeys_Fields nameless_data ''role'') = Some ''test-role''"
    "as_string (Get entries_env pathKeys_Fields empty_name_data ''role'') = Some ''test-role''"
    by (simp_all add: Get_def pathKeys_Fields_def nameless_data_def empty_name_data_def)
  have nm: "Get entries_env pathKeys_Fields nameless_data ''name'' = Some (VString ''vault-generated'')"
    "Get entries_env pathKeys_Fields empty_name_data ''name'' = Some (VString [])"
    by (simp_all add: Get_def pathKeys_Fields_def nameless_data_def empty_name_data_def
        DefaultOrZero_def)
  have 1: "calls (snd (snd (pathKeysRead entries_env 1700000000 test_backend nameless_data role_world)))
       = [CreateAPIKey ''vault-generated'', CreateAppKey ''vault-generated'' [''logs_read'']]"
    by (simp add: pathKeysRead_found [OF rn(1) _ test_getRole] nm ensureClient_def
        test_backend_def key_name_def ck case_prod_beta)
  have 2: "calls (snd (snd (pathKeysRead entries_env 1700000000 test_backend empty_name_data role_world)))
       = [CreateAPIKey ''vault-test-role-1700000000'',
          CreateAppKey ''vault-test-role-1700000000'' [''logs_read'']]"
    using ck [of "''vault-test-role-1700000000''"]
    by (simp add: pathKeysRead_found [OF rn(2) _ test_getRole] nm ensureClient_def
        test_backend_def key_name_def show_1700000000 case_prod_beta)
  have 3: "calls (snd (snd (pathKeysRead entries_env 1700000000 test_backend test_data role_world)))
       = [CreateAPIKey ''test-keys'', CreateAppKey ''test-keys'' [''logs_read'']]"
    by (simp add: pathKeysRead_found [OF test_role_field _ test_getRole] test_name_field
        ensureClient_def test_backend_def key_name_def ck case_prod_beta)
  have rn4: "as_string (Get entries_env pathKeys_Fields nil_name_data ''role'') = Some ''test-role''"
    by (simp add: Get_def pathKeys_Fields_def nil_name_data_def)
  have nm4: "Get entries_env pathKeys_Fields nil_name_data ''name'' = Some (VString [])"
    by (simp add: Get_def pathKeys_Fields_def nil_name_data_def)
  have 4: "calls (snd (snd (pathKeysRead entries_env 1700000000 test_backend nil_name_data role_world)))
       = [CreateAPIKey ''vault-test-role-1700000000'',
          CreateAppKey ''vault-test-role-1700000000'' [''logs_read'']]"
    using ck [of "''vault-test-role-1700000000''"]
    by (simp add: pathKeysRead_found [OF rn4 _ test_getRole] nm4 ensureClient_def
        test_backend_def key_name_def show_1700000000 case_prod_beta)
  from nm(1) 1 2 3 4 show ?thesis by simp
qed

lemma revoke_keys_no_panic: "fst (revoke_keys E c idata kt w) \<noteq> Panic"
  by (auto simp: revoke_keys_def split: prod.splits option.splits)

text \<open>
  C10, as stated, fails: with no client cached and no configuration stored, a revocation
  whose metadata has no \<open>key_type\<close> returns the error response
  \<open>datadog backend not configured\<close>; it does not panic.
\<close>

theorem revoke_without_config_does_not_panic:
  "as_string (InternalData untyped_secret ''key_type'') = None
   \<and> secretKeysRevoke test_env fresh_backend (Some untyped_secret) empty_world
       = (Return (Some (ErrorResponse ''datadog backend not configured'')), fresh_backend,
          empty_world\<lparr>sops := [SGet ''config'']\<rparr>)"
  by (simp add: untyped_secret_def secretKeysRevoke_def ensureClient_def getConfig_def
      storage_Get_def fresh_backend_def empty_world_def test_env_def Let_def)

text \<open>
  C10, as the code has it. The assertion on \<open>key_type\<close> comes after the client has been
  obtained. When the metadata has no string \<open>key_type\<close>: if a client is obtained, the
  revocation panics, and no provider call has been made; if none is obtained, it returns
  what obtaining the client returned (an error or the not-configured response) and does
  not panic. When \<open>key_type\<close> is a string, the revocation does not panic.
\<close>

theorem revoke_asserts_key_type_after_client:
  "(as_string (InternalData s ''key_type'') = None \<longrightarrow>
      (\<forall>c b1 w1. ensureClient E b w = (Inr c, b1, w1) \<longrightarrow>
         secretKeysRevoke E b (Some s) w = (Panic, b1, w1) \<and> calls w1 = calls w)
    \<and> (\<forall>r b1 w1. ensureClient E b w = (Inl r, b1, w1) \<longrightarrow>
         secretKeysRevoke E b (Some s) w = (r, b1, w1) \<and> r \<noteq> Panic))
   \<and> (as_string (InternalData s ''key_type'') \<noteq> None \<longrightarrow>
        fst (secretKeysRevoke E b (Some s) w) \<noteq> Panic)"
proof (intro conjI impI allI)
  fix c b1 w1
  assume "as_string (InternalData s ''key_type'') = None" "ensureClient E b w = (Inr c, b1, w1)"
  then show "secretKeysRevoke E b (Some s) w = (Panic, b1, w1)"
    by (simp add: secretKeysRevoke_def)
  from ensureClient_frame [OF \<open>ensureClient E b w = (Inr c, b1, w1)\<close>]
  show "calls w1 = calls w" by simp
next
  fix r b1 w1
  assume "as_string (InternalData s ''key_type'') = None" "ensureClient E b w = (Inl r, b1, w1)"
  then show "secretKeysRevoke E b (Some s) w = (r, b1, w1)"
    by (simp add: secretKeysRevoke_def)
  from ensureClient_Inl [OF \<open>ensureClient E b w = (Inl r, b1, w1)\<close>]
  show "r \<noteq> Panic" by simp
next
  assume "as_string (InternalData s ''key_type'') \<noteq> None"
  then obtain kt where kt: "as_string (InternalData s ''key_type'') = Some kt" by auto
  obtain x b1 w1 where ec: "ensureClient E b w = (x, b1, w1)"
    by (cases "ensureClient E b w") auto
  show "fst (secretKeysRevoke E b (Some s) w) \<noteq> Panic"
  proof (cases x)
    case (Inl r)
    with ec ensureClient_Inl [of E b w r b1 w1] show ?thesis
      by (simp add: secretKeysRevoke_def)
  next
    case (Inr c)
    with ec kt revoke_keys_no_panic [of E c "InternalData s" kt w1] show ?thesis
      by (simp add: secretKeysRevoke_def case_prod_beta)
  qed
qed

theorem revoke_asserts_key_type_after_client_witness:
  "as_string (InternalData untyped_secret ''key_type'') = None
   \<and> secretKeysRevoke test_env test_backend (Some untyped_secret) empty_world
       = (Panic, test_backend, empty_world)
   \<and> as_string (InternalData test_secret ''key_type'') \<noteq> None
   \<and> fst (secretKeysRevoke test_env test_backend (Some test_secret) empty_world) \<noteq> Panic"
proof -
  have n: "as_string (InternalData untyped_secret ''key_type'') = None"
    by (simp add: untyped_secret_def)
  have ec: "ensureClient test_env test_backend empty_world
              = (Inr (Mock test_mock), test_backend, empty_world)"
    by (simp add: ensureClient_def test_backend_def)
  have t: "as_string (InternalData test_secret ''key_type'') \<noteq> None"
    by (simp add: test_secret_def)
  from revoke_asserts_key_type_after_client [of untyped_secret test_env test_backend empty_world] n ec
  have 1: "secretKeysRevoke test_env test_backend (Some untyped_secret) empty_world
       = (Panic, test_backend, empty_world)"
    by blast
  from revoke_asserts_key_type_after_client [of test_secret test_env test_backend empty_world] t
  have 2: "fst (secretKeysRevoke test_env test_backend (Some test_secret) empty_world) \<noteq> Panic"
    by blast
  from n 1 t 2 show ?thesis by simp
qed

end
